theory Spec2Isabelle
  imports Main
begin

section \<open>The JavaScript values the script handles\<close>

text \<open>
  The three scripts of the repository (\<^verbatim>\<open>src/index.ts\<close> and the two unnamed parts) are
  TypeScript whose types are erased at run time: what \<^verbatim>\<open>JSON.parse\<close> returns is an
  untyped value, and every property read is dynamic. The embedding therefore works on a
  datatype of run-time values. Strings are byte strings (the UTF-8 form of the scripts'
  strings; the scripts compare, concatenate and print strings, they never measure one).
  \<open>JPromise\<close> is a promise object that was not awaited.

  A number is a double. The scripts do no arithmetic on numbers: they get them from
  \<^verbatim>\<open>JSON.parse\<close>, compare one with zero and print them. \<open>Decimal m e\<close> stands for the
  double nearest to the decimal \<open>m * 10 ^ e\<close>, \<open>Infinite neg\<close> for the infinity of that sign
  (what \<^verbatim>\<open>JSON.parse\<close> gives for a literal beyond the largest double). The two zeros are
  one value here: they print alike (\<^verbatim>\<open>0\<close>) and both are \<^verbatim>\<open>=== 0\<close>. \<^verbatim>\<open>NaN\<close> has no literal
  in JSON and is left out.
\<close>

datatype number = Decimal int int | Infinite bool

datatype js_value =
    JUndefined
  | JNull
  | JBool bool
  | JNum number
  | JStr string
  | JArr "js_value list"
  | JObj "(string \<times> js_value) list"
  | JPromise

datatype js_error =
    SyntaxError
  | TypeError
  | Error string
  | ResourceReadError string
  | NetworkError

subsection \<open>Decimal digits\<close>

definition digit_char :: "int \<Rightarrow> char" where
  "digit_char d = char_of (48 + d)"

function digits :: "int \<Rightarrow> string" where
  "digits n = (if n < 10 then [digit_char n] else digits (n div 10) @ [digit_char (n mod 10)])"
  by pat_completeness auto

termination
  by (relation "measure nat") auto

declare digits.simps [simp del]

function strip_zeros :: "int \<Rightarrow> int \<Rightarrow> int \<times> int" where
  "strip_zeros a e =
     (if 0 < a \<and> a mod 10 = 0 then strip_zeros (a div 10) (e + 1) else (a, e))"
  by pat_completeness auto

termination
  by (relation "measure (\<lambda>(a, e). nat a)") auto

declare strip_zeros.simps [simp del]

subsection \<open>Doubles\<close>

text \<open>
  The magnitude of a double: zero, \<open>Finite c x\<close> for \<open>c * 2 ^ x\<close> with \<open>c < 2 ^ 53\<close> and
  \<open>- 1074 \<le> x \<le> 971\<close> (and \<open>2 ^ 52 \<le> c\<close> unless \<open>x = - 1074\<close>, so that each double is written
  in one way), or beyond the largest double. All of it is exact integer arithmetic.
\<close>

datatype double = Zero | Finite int int | Overflow

function pow :: "int \<Rightarrow> int \<Rightarrow> int" where
  "pow b n = (if n \<le> 0 then 1
              else if n mod 2 = 0 then pow (b * b) (n div 2)
              else b * pow (b * b) (n div 2))"
  by pat_completeness auto

termination
  by (relation "measure (\<lambda>(b, n). nat n)") auto

declare pow.simps [simp del]

function bit_length :: "int \<Rightarrow> int" where
  "bit_length n = (if n \<le> 0 then 0 else 1 + bit_length (n div 2))"
  by pat_completeness auto

termination
  by (relation "measure nat") auto

declare bit_length.simps [simp del]

text \<open>\<open>a / b\<close> rounded to the nearest integer, a tie to the even one.\<close>

definition round_half_even :: "int \<Rightarrow> int \<Rightarrow> int" where
  "round_half_even a b =
     (let q = a div b; r = a mod b
      in if b < 2 * r \<or> (2 * r = b \<and> q mod 2 = 1) then q + 1 else q)"

text \<open>The \<open>t\<close> with \<open>2 ^ t \<le> a / b < 2 ^ (t + 1)\<close>, for positive \<open>a\<close> and \<open>b\<close>.\<close>

definition floor_log2 :: "int \<Rightarrow> int \<Rightarrow> int" where
  "floor_log2 a b =
     (let t = bit_length a - bit_length b
      in if (if 0 \<le> t then b * pow 2 t \<le> a else b \<le> a * pow 2 (- t)) then t else t - 1)"

text \<open>The double nearest to \<open>a / b\<close>, a tie to the even significand (positive \<open>a\<close>, \<open>b\<close>).\<close>

definition nearest_double :: "int \<Rightarrow> int \<Rightarrow> double" where
  "nearest_double a b =
     (let x = max (floor_log2 a b - 52) (- 1074);
          c = (if 0 \<le> x then round_half_even a (b * pow 2 x)
               else round_half_even (a * pow 2 (- x)) b)
      in if c = 0 then Zero
         else if c = pow 2 53 then (if 971 < x + 1 then Overflow else Finite (pow 2 52) (x + 1))
         else if 971 < x then Overflow
         else Finite c x)"

text \<open>
  The double nearest to \<open>m * 10 ^ e\<close>, for \<open>0 \<le> m\<close>. A decimal of 311 or more digits before
  the point is beyond the largest double (about \<open>1.8 * 10 ^ 308\<close>), one below \<open>10 ^ - 331\<close>
  is nearer to zero than to the smallest double (about \<open>4.9 * 10 ^ - 324\<close>).
\<close>

definition double_of_decimal :: "int \<Rightarrow> int \<Rightarrow> double" where
  "double_of_decimal m e =
     (let p = int (length (digits m)) + e
      in if m = 0 \<or> p < - 330 then Zero
         else if 310 < p then Overflow
         else if 0 \<le> e then nearest_double (m * pow 10 e) 1
         else nearest_double m (pow 10 (- e)))"

text \<open>The \<open>n\<close> with \<open>10 ^ (n - 1) \<le> a / b < 10 ^ n\<close>, for positive \<open>a\<close> and \<open>b\<close>.\<close>

definition decimal_exponent :: "int \<Rightarrow> int \<Rightarrow> int" where
  "decimal_exponent a b =
     (let t = int (length (digits a)) - int (length (digits b))
      in if (if 0 \<le> t then b * pow 10 t \<le> a else b \<le> a * pow 10 (- t)) then t + 1 else t)"

text \<open>
  The digits \<^verbatim>\<open>Number::toString\<close> prints for the double \<open>d\<close> of value \<open>a / b\<close>: the decimal
  \<open>s * 10 ^ t\<close> of the fewest digits \<open>k\<close> whose nearest double is \<open>d\<close>, and of those the one
  nearest to \<open>a / b\<close>. The two decimals of \<open>k\<close> digits around \<open>a / b\<close> are tried for
  \<open>k = 1, 2, \<dots>\<close>; 17 digits tell any two doubles apart.
\<close>

function shortest :: "int \<Rightarrow> int \<Rightarrow> int \<Rightarrow> int \<Rightarrow> double \<Rightarrow> int \<times> int" where
  "shortest k a b n d =
     (let t = n - k;
          lo = (if 0 \<le> t then a div (b * pow 10 t) else (a * pow 10 (- t)) div b);
          hi = lo + 1;
          l = (if 0 \<le> t then (2 * lo + 1) * pow 10 t * b else (2 * lo + 1) * b);
          r = (if 0 \<le> t then 2 * a else 2 * a * pow 10 (- t))
      in if double_of_decimal lo t = d then
           (if double_of_decimal hi t = d \<and> (l < r \<or> (l = r \<and> lo mod 2 = 1)) then (hi, t)
            else (lo, t))
         else if double_of_decimal hi t = d then (hi, t)
         else if 17 \<le> k then (lo, t)
         else shortest (k + 1) a b n d)"
  by pat_completeness auto

termination
  by (relation "measure (\<lambda>(k, a, b, n, d). nat (17 - k))") auto

declare shortest.simps [simp del]

text \<open>
  One way of writing each number: an integer of at most 21 digits as \<open>Decimal n 0\<close>, any
  other finite number as \<open>Decimal s t\<close> with the digits \<open>s\<close> that are printed for it, no zero
  at their end.
\<close>

definition normal_form :: "bool \<Rightarrow> int \<Rightarrow> int \<Rightarrow> number" where
  "normal_form neg s t =
     (let (s', t') = strip_zeros s t
      in if 0 \<le> t' \<and> int (length (digits s')) + t' \<le> 21
         then Decimal (if neg then - (s' * pow 10 t') else s' * pow 10 t') 0
         else Decimal (if neg then - s' else s') t')"

text \<open>
  \<open>canonical n\<close> is the double that \<open>n\<close> stands for, written in that way. A double carries
  15 decimal digits: a decimal of at most 15 significant digits between \<open>10 ^ - 300\<close> and
  \<open>10 ^ 300\<close> is itself the shortest decimal of the double nearest to it, so its digits are
  kept. Any other decimal is rounded to its double and replaced by the digits printed for
  that double.
\<close>

definition canonical :: "number \<Rightarrow> number" where
  "canonical n =
     (case n of
        Infinite neg \<Rightarrow> Infinite neg
      | Decimal m e \<Rightarrow>
          if m = 0 then Decimal 0 0
          else
            let (s, t) = strip_zeros \<bar>m\<bar> e;
                k = int (length (digits s))
            in if k \<le> 15 \<and> - 300 \<le> k + t \<and> k + t \<le> 300 then normal_form (m < 0) s t
               else
                 (case double_of_decimal s t of
                    Zero \<Rightarrow> Decimal 0 0
                  | Overflow \<Rightarrow> Infinite (m < 0)
                  | Finite c x \<Rightarrow>
                      let a = (if 0 \<le> x then c * pow 2 x else c);
                          b = (if 0 \<le> x then 1 else pow 2 (- x));
                          (s', t') = shortest 1 a b (decimal_exponent a b) (Finite c x)
                      in normal_form (m < 0) s' t'))"

subsection \<open>Printing numbers\<close>

text \<open>
  \<^verbatim>\<open>Number::toString\<close> in radix 10: with \<open>k\<close> significant digits and the decimal
  point after digit \<open>n\<close>, plain digits for \<open>k \<le> n \<le> 21\<close>, a decimal point inside for
  \<open>0 < n \<le> 21\<close>, leading zeros for \<open>-6 < n \<le> 0\<close>, exponent notation otherwise.
\<close>

definition print_decimal :: "int \<Rightarrow> int \<Rightarrow> string" where
  "print_decimal m e =
     (if m = 0 then ''0''
      else
        let (s, e') = strip_zeros \<bar>m\<bar> e;
            ds = digits s;
            k = int (length ds);
            n = k + e';
            ex = (if n - 1 < 0 then ''-'' else ''+'') @ digits \<bar>n - 1\<bar>
        in (if m < 0 then ''-'' else [])
           @ (if k \<le> n \<and> n \<le> 21 then ds @ replicate (nat (n - k)) CHR ''0''
              else if 0 < n \<and> n \<le> 21 then take (nat n) ds @ ''.'' @ drop (nat n) ds
              else if - 6 < n \<and> n \<le> 0 then ''0.'' @ replicate (nat (- n)) CHR ''0'' @ ds
              else if k = 1 then ds @ ''e'' @ ex
              else take 1 ds @ ''.'' @ drop 1 ds @ ''e'' @ ex))"

definition number_to_string :: "number \<Rightarrow> string" where
  "number_to_string n =
     (case canonical n of
        Infinite neg \<Rightarrow> (if neg then ''-Infinity'' else ''Infinity'')
      | Decimal m e \<Rightarrow> print_decimal m e)"

text \<open>\<^verbatim>\<open>v === 0\<close>: a number whose value is zero, and nothing else.\<close>

definition strict_equals_zero :: "js_value \<Rightarrow> bool" where
  "strict_equals_zero v = (case v of JNum n \<Rightarrow> canonical n = Decimal 0 0 | _ \<Rightarrow> False)"

subsection \<open>\<^verbatim>\<open>JSON.stringify\<close>\<close>

definition hex_char :: "int \<Rightarrow> char" where
  "hex_char d = (if d < 10 then char_of (48 + d) else char_of (87 + d))"

definition hex4 :: "int \<Rightarrow> string" where
  "hex4 u = [hex_char (u div 4096 mod 16), hex_char (u div 256 mod 16),
             hex_char (u div 16 mod 16), hex_char (u mod 16)]"

text \<open>
  \<^verbatim>\<open>QuoteJSONString\<close>: the short escapes, \<^verbatim>\<open>\u00XX\<close> for the other control characters, and
  \<^verbatim>\<open>\udXXX\<close> for a lone surrogate (in the byte form, the three bytes \<open>ED A0..BF xx\<close>).
\<close>

fun quote_chars :: "string \<Rightarrow> string" where
  "quote_chars [] = []"
| "quote_chars (c # cs) =
     (let n = (of_char c :: int) in
      if n = 8 then [CHR 0x5C, CHR ''b''] @ quote_chars cs
      else if n = 9 then [CHR 0x5C, CHR ''t''] @ quote_chars cs
      else if n = 10 then [CHR 0x5C, CHR ''n''] @ quote_chars cs
      else if n = 12 then [CHR 0x5C, CHR ''f''] @ quote_chars cs
      else if n = 13 then [CHR 0x5C, CHR ''r''] @ quote_chars cs
      else if n = 34 then [CHR 0x5C, CHR 0x22] @ quote_chars cs
      else if n = 92 then [CHR 0x5C, CHR 0x5C] @ quote_chars cs
      else if n < 32 then [CHR 0x5C, CHR ''u''] @ hex4 n @ quote_chars cs
      else if n = 237 then
        (case cs of
           b # d # cs' \<Rightarrow>
             if 160 \<le> (of_char b :: int) \<and> (of_char b :: int) < 192 then
               [CHR 0x5C, CHR ''u'']
               @ hex4 (53248 + ((of_char b :: int) - 128) * 64 + ((of_char d :: int) - 128))
               @ quote_chars cs'
             else c # quote_chars cs
         | _ \<Rightarrow> c # quote_chars cs)
      else c # quote_chars cs)"

definition quote_json_string :: "string \<Rightarrow> string" where
  "quote_json_string s = [CHR 0x22] @ quote_chars s @ [CHR 0x22]"

fun join :: "string \<Rightarrow> string list \<Rightarrow> string" where
  "join sep [] = []"
| "join sep [x] = x"
| "join sep (x # y # zs) = x @ sep @ join sep (y # zs)"

text \<open>
  \<^verbatim>\<open>SerializeJSONProperty\<close>: \<open>None\<close> is the result \<^verbatim>\<open>undefined\<close>, which drops a property
  of an object and prints as \<^verbatim>\<open>null\<close> in an array. A number that is not finite prints as
  \<^verbatim>\<open>null\<close>. A promise has no enumerable property of its own, so it prints as the empty
  object.
\<close>

fun serialize :: "js_value \<Rightarrow> string option" where
  "serialize JUndefined = None"
| "serialize JNull = Some ''null''"
| "serialize (JBool b) = Some (if b then ''true'' else ''false'')"
| "serialize (JNum n) =
     Some (case canonical n of Infinite neg \<Rightarrow> ''null'' | Decimal m e \<Rightarrow> number_to_string n)"
| "serialize (JStr s) = Some (quote_json_string s)"
| "serialize (JArr xs) =
     Some (''['' @ join '','' (map (\<lambda>x. case serialize x of None \<Rightarrow> ''null'' | Some t \<Rightarrow> t) xs)
           @ '']'')"
| "serialize (JObj kvs) =
     Some (''{'' @ join '',''
             (concat (map (\<lambda>(k, v). case serialize v of
                                        None \<Rightarrow> []
                                      | Some t \<Rightarrow> [quote_json_string k @ '':'' @ t]) kvs))
           @ ''}'')"
| "serialize JPromise = Some ''{}''"

text \<open>
  \<^verbatim>\<open>JSON.stringify(v)\<close> as the script uses it: the argument is never \<^verbatim>\<open>undefined\<close> there
  (an object literal, or the result of \<^verbatim>\<open>response.json()\<close>), and its result is used as
  a string; of \<^verbatim>\<open>undefined\<close> a template literal prints the word.
\<close>

definition JSON_stringify :: "js_value \<Rightarrow> string" where
  "JSON_stringify v = (case serialize v of None \<Rightarrow> ''undefined'' | Some t \<Rightarrow> t)"

subsection \<open>String coercion and property reads\<close>

fun collect :: "('e + 'a) list \<Rightarrow> 'e + 'a list" where
  "collect [] = Inr []"
| "collect (x # xs) =
     (case x of
        Inl e \<Rightarrow> Inl e
      | Inr a \<Rightarrow> (case collect xs of Inl e \<Rightarrow> Inl e | Inr as \<Rightarrow> Inr (a # as)))"

text \<open>
  \<^verbatim>\<open>ToString\<close>, the coercion \<^verbatim>\<open>JSON.parse\<close> applies to an argument that is not a
  string. An object made by \<^verbatim>\<open>JSON.parse\<close> inherits \<^verbatim>\<open>Object.prototype.toString\<close>, which
  prints \<^verbatim>\<open>[object Object]\<close>, unless it has a property \<^verbatim>\<open>toString\<close> of its own: that one
  is data, not a function, and the coercion throws a \<^verbatim>\<open>TypeError\<close>. An array prints its
  elements joined by commas, \<^verbatim>\<open>null\<close> and \<^verbatim>\<open>undefined\<close> as the empty string.
\<close>

fun ToString :: "js_value \<Rightarrow> js_error + string" where
  "ToString JUndefined = Inr ''undefined''"
| "ToString JNull = Inr ''null''"
| "ToString (JBool b) = Inr (if b then ''true'' else ''false'')"
| "ToString (JNum n) = Inr (number_to_string n)"
| "ToString (JStr s) = Inr s"
| "ToString (JArr xs) =
     (case collect (map (\<lambda>x. if x = JUndefined \<or> x = JNull then Inr [] else ToString x) xs) of
        Inl e \<Rightarrow> Inl e
      | Inr parts \<Rightarrow> Inr (join '','' parts))"
| "ToString (JObj kvs) =
     (if map_of kvs ''toString'' \<noteq> None then Inl TypeError else Inr ''[object Object]'')"
| "ToString JPromise = Inr ''[object Promise]''"

text \<open>
  \<open>js_get v k\<close> is the read \<^verbatim>\<open>v.k\<close> of a property name that no built-in prototype
  defines; every name the scripts read is one (\<^verbatim>\<open>Clients\<close>, \<^verbatim>\<open>Reservation\<close>, \<^verbatim>\<open>hotel\<close>,
  \<^verbatim>\<open>name\<close>, \<^verbatim>\<open>guests\<close>, \<^verbatim>\<open>documents\<close>, \<^verbatim>\<open>id\<close> and so on). Reading a property of
  \<^verbatim>\<open>undefined\<close> or \<^verbatim>\<open>null\<close> throws a \<^verbatim>\<open>TypeError\<close>; a missing property is
  \<^verbatim>\<open>undefined\<close>.
\<close>

definition get_property :: "(string \<times> js_value) list \<Rightarrow> string \<Rightarrow> js_value" where
  "get_property kvs k = (case map_of kvs k of None \<Rightarrow> JUndefined | Some x \<Rightarrow> x)"

definition js_get :: "js_value \<Rightarrow> string \<Rightarrow> js_error + js_value" where
  "js_get v k =
     (case v of
        JUndefined \<Rightarrow> Inl TypeError
      | JNull \<Rightarrow> Inl TypeError
      | JObj kvs \<Rightarrow> Inr (get_property kvs k)
      | _ \<Rightarrow> Inr JUndefined)"

definition utf8_encode :: "int \<Rightarrow> string" where
  "utf8_encode u =
     (if u < 128 then [char_of u]
      else if u < 2048 then [char_of (192 + u div 64), char_of (128 + u mod 64)]
      else if u < 65536 then
        [char_of (224 + u div 4096), char_of (128 + u div 64 mod 64), char_of (128 + u mod 64)]
      else
        [char_of (240 + u div 262144), char_of (128 + u div 4096 mod 64),
         char_of (128 + u div 64 mod 64), char_of (128 + u mod 64)])"

text \<open>The first code unit of a string, for \<^verbatim>\<open>s[0]\<close>: of a character outside the basic
  plane it is the high surrogate.\<close>

definition first_code_unit :: "string \<Rightarrow> string" where
  "first_code_unit s =
     (case s of
        [] \<Rightarrow> []
      | c # cs \<Rightarrow>
          let n = (of_char c :: int) in
          if n < 192 then [c]
          else if n < 224 then take 2 s
          else if n < 240 then take 3 s
          else
            (case cs of
               b # d # f # _ \<Rightarrow>
                 utf8_encode
                   (55296 + ((n - 240) * 262144 + ((of_char b :: int) - 128) * 4096
                             + ((of_char d :: int) - 128) * 64 + ((of_char f :: int) - 128)
                             - 65536) div 1024)
             | _ \<Rightarrow> s))"

text \<open>\<open>js_index0 v\<close> is the read \<^verbatim>\<open>v[0]\<close>.\<close>

definition js_index0 :: "js_value \<Rightarrow> js_error + js_value" where
  "js_index0 v =
     (case v of
        JUndefined \<Rightarrow> Inl TypeError
      | JNull \<Rightarrow> Inl TypeError
      | JArr xs \<Rightarrow> Inr (case xs of [] \<Rightarrow> JUndefined | x # _ \<Rightarrow> x)
      | JObj kvs \<Rightarrow> Inr (get_property kvs ''0'')
      | JStr s \<Rightarrow> Inr (if s = [] then JUndefined else JStr (first_code_unit s))
      | _ \<Rightarrow> Inr JUndefined)"

text \<open>
  \<^verbatim>\<open>v.forEach(f)\<close>: on an array, \<^verbatim>\<open>Array.prototype.forEach\<close> calls \<open>f\<close> on each element in
  order and discards what \<open>f\<close> returns; an exception of \<open>f\<close> ends the loop. On
  \<^verbatim>\<open>undefined\<close> and \<^verbatim>\<open>null\<close> the property read throws, and on any other value
  \<^verbatim>\<open>forEach\<close> is not a function (a value made by \<^verbatim>\<open>JSON.parse\<close> holds no function).
\<close>

fun for_each :: "js_value list \<Rightarrow> (js_value \<Rightarrow> js_error + js_value) \<Rightarrow> js_error + unit" where
  "for_each [] f = Inr ()"
| "for_each (x # xs) f = (case f x of Inl e \<Rightarrow> Inl e | Inr _ \<Rightarrow> for_each xs f)"

definition js_forEach :: "js_value \<Rightarrow> (js_value \<Rightarrow> js_error + js_value) \<Rightarrow> js_error + unit" where
  "js_forEach v f = (case v of JArr xs \<Rightarrow> for_each xs f | _ \<Rightarrow> Inl TypeError)"

subsection \<open>\<^verbatim>\<open>JSON.parse\<close>\<close>

definition is_ws :: "char \<Rightarrow> bool" where
  "is_ws c = (c = CHR 0x20 \<or> c = CHR 0x09 \<or> c = CHR 0x0A \<or> c = CHR 0x0D)"

definition skip_ws :: "string \<Rightarrow> string" where
  "skip_ws s = dropWhile is_ws s"

definition is_digit :: "char \<Rightarrow> bool" where
  "is_digit c = (48 \<le> (of_char c :: int) \<and> (of_char c :: int) \<le> 57)"

definition int_of_digits :: "string \<Rightarrow> int" where
  "int_of_digits ds = foldl (\<lambda>a c. 10 * a + ((of_char c :: int) - 48)) 0 ds"

definition hex_val :: "char \<Rightarrow> int option" where
  "hex_val c =
     (let n = (of_char c :: int) in
      if 48 \<le> n \<and> n \<le> 57 then Some (n - 48)
      else if 65 \<le> n \<and> n \<le> 70 then Some (n - 55)
      else if 97 \<le> n \<and> n \<le> 102 then Some (n - 87)
      else None)"

definition hex4_val :: "char \<Rightarrow> char \<Rightarrow> char \<Rightarrow> char \<Rightarrow> int option" where
  "hex4_val a b c d =
     (case (hex_val a, hex_val b, hex_val c, hex_val d) of
        (Some w, Some x, Some y, Some z) \<Rightarrow> Some (w * 4096 + x * 256 + y * 16 + z)
      | _ \<Rightarrow> None)"

text \<open>The characters of a string literal: a byte of the text, or the code unit of a
  \<^verbatim>\<open>\uXXXX\<close> escape.\<close>

datatype str_item = Byte char | Unit int

fun encode_items :: "str_item list \<Rightarrow> string" where
  "encode_items [] = []"
| "encode_items (Byte c # xs) = c # encode_items xs"
| "encode_items [Unit u] = utf8_encode u"
| "encode_items (Unit u # Byte c # xs) = utf8_encode u @ c # encode_items xs"
| "encode_items (Unit h # Unit l # xs) =
     (if 55296 \<le> h \<and> h < 56320 \<and> 56320 \<le> l \<and> l < 57344
      then utf8_encode (65536 + (h - 55296) * 1024 + (l - 56320)) @ encode_items xs
      else utf8_encode h @ encode_items (Unit l # xs))"

text \<open>\<open>string_items cs acc\<close> reads a string literal after its opening quote.\<close>

fun string_items :: "string \<Rightarrow> str_item list \<Rightarrow> (str_item list \<times> string) option" where
  "string_items [] acc = None"
| "string_items (c # cs) acc =
     (if c = CHR 0x22 then Some (acc, cs)
      else if c = CHR 0x5C then
        (case cs of
           [] \<Rightarrow> None
         | e # cs' \<Rightarrow>
             if e = CHR 0x22 \<or> e = CHR 0x5C \<or> e = CHR ''/'' then string_items cs' (acc @ [Byte e])
             else if e = CHR ''b'' then string_items cs' (acc @ [Byte (CHR 0x08)])
             else if e = CHR ''f'' then string_items cs' (acc @ [Byte (CHR 0x0C)])
             else if e = CHR ''n'' then string_items cs' (acc @ [Byte (CHR 0x0A)])
             else if e = CHR ''r'' then string_items cs' (acc @ [Byte (CHR 0x0D)])
             else if e = CHR ''t'' then string_items cs' (acc @ [Byte (CHR 0x09)])
             else if e = CHR ''u'' then
               (case cs' of
                  a # b # d # f # cs'' \<Rightarrow>
                    (case hex4_val a b d f of
                       None \<Rightarrow> None
                     | Some u \<Rightarrow> string_items cs'' (acc @ [Unit u]))
                | _ \<Rightarrow> None)
             else None)
      else if (of_char c :: int) < 32 then None
      else string_items cs (acc @ [Byte c]))"

definition parse_string :: "string \<Rightarrow> (string \<times> string) option" where
  "parse_string cs =
     (case string_items cs [] of None \<Rightarrow> None | Some (items, r) \<Rightarrow> Some (encode_items items, r))"

text \<open>A number literal: \<^verbatim>\<open>-? (0 | [1-9][0-9]*) (. [0-9]+)? ([eE] [+-]? [0-9]+)?\<close>. Its
  value is the double nearest to the decimal it writes.\<close>


definition parse_int_part :: "string \<Rightarrow> (bool \<times> string \<times> string) option" where
  "parse_int_part s =
     (let neg = (s \<noteq> [] \<and> hd s = CHR ''-'');
          s1 = (if neg then tl s else s);
          ip = takeWhile is_digit s1
      in if ip = [] \<or> (1 < length ip \<and> hd ip = CHR ''0'') then None
         else Some (neg, ip, dropWhile is_digit s1))"

definition parse_frac_part :: "string \<Rightarrow> (string \<times> string) option" where
  "parse_frac_part s =
     (case s of
        [] \<Rightarrow> Some ([], s)
      | c # cs \<Rightarrow>
          if c = CHR ''.'' then
            (if takeWhile is_digit cs = [] then None
             else Some (takeWhile is_digit cs, dropWhile is_digit cs))
          else Some ([], s))"

definition parse_exp_part :: "string \<Rightarrow> (int \<times> string) option" where
  "parse_exp_part s =
     (case s of
        [] \<Rightarrow> Some (0, s)
      | c # cs \<Rightarrow>
          if c = CHR ''e'' \<or> c = CHR ''E'' then
            (let eneg = (cs \<noteq> [] \<and> hd cs = CHR ''-'');
                 s1 = (if cs \<noteq> [] \<and> (hd cs = CHR ''-'' \<or> hd cs = CHR ''+'') then tl cs else cs);
                 ep = takeWhile is_digit s1
             in if ep = [] then None
                else Some (if eneg then - int_of_digits ep else int_of_digits ep,
                           dropWhile is_digit s1))
          else Some (0, s))"

definition parse_number :: "string \<Rightarrow> (js_value \<times> string) option" where
  "parse_number s =
     (case parse_int_part s of
        None \<Rightarrow> None
      | Some (neg, ip, s2) \<Rightarrow>
          (case parse_frac_part s2 of
             None \<Rightarrow> None
           | Some (fp, s3) \<Rightarrow>
               (case parse_exp_part s3 of
                  None \<Rightarrow> None
                | Some (ex, s4) \<Rightarrow>
                    Some (JNum (canonical (Decimal (if neg then - int_of_digits (ip @ fp)
                                                    else int_of_digits (ip @ fp))
                                                   (ex - int (length fp)))),
                          s4))))"

text \<open>
  Properties of an object are kept in the order \<^verbatim>\<open>JSON.stringify\<close> enumerates them:
  array indices first, in ascending order, then the other names in the order of their
  creation. A repeated name keeps its place and takes the later value.
\<close>

definition is_array_index :: "string \<Rightarrow> bool" where
  "is_array_index k =
     (k \<noteq> [] \<and> list_all is_digit k \<and> (k = ''0'' \<or> hd k \<noteq> CHR ''0'')
      \<and> int_of_digits k < 4294967295)"

fun replace_value :: "string \<Rightarrow> js_value \<Rightarrow> (string \<times> js_value) list \<Rightarrow> (string \<times> js_value) list" where
  "replace_value k v [] = []"
| "replace_value k v ((k', v') # kvs) =
     (if k' = k then (k, v) # kvs else (k', v') # replace_value k v kvs)"

fun insert_index :: "string \<Rightarrow> js_value \<Rightarrow> (string \<times> js_value) list \<Rightarrow> (string \<times> js_value) list" where
  "insert_index k v [] = [(k, v)]"
| "insert_index k v ((k', v') # kvs) =
     (if is_array_index k' \<and> int_of_digits k' < int_of_digits k
      then (k', v') # insert_index k v kvs
      else (k, v) # (k', v') # kvs)"

definition define_property :: "(string \<times> js_value) list \<Rightarrow> string \<Rightarrow> js_value \<Rightarrow> (string \<times> js_value) list" where
  "define_property kvs k v =
     (if map_of kvs k \<noteq> None then replace_value k v kvs
      else if is_array_index k then insert_index k v kvs
      else kvs @ [(k, v)])"

lemma length_skip_ws: "length (skip_ws s) \<le> length s"
  by (simp add: skip_ws_def length_dropWhile_le)

lemma skip_ws_Cons_length: "skip_ws s = c # cs \<Longrightarrow> length cs < length s"
  using length_skip_ws [of s] by simp

text \<open>
  The recursive descent. Each function returns the value read and the rest of the text.
  The comparisons of lengths only make the recursion well-founded: a value that is read
  consumes at least one character (lemma \<open>parse_value_shorter\<close> below), so they never fail.
\<close>

function parse_value :: "string \<Rightarrow> (js_value \<times> string) option"
  and parse_elements :: "js_value list \<Rightarrow> string \<Rightarrow> (js_value \<times> string) option"
  and parse_members :: "(string \<times> js_value) list \<Rightarrow> string \<Rightarrow> (js_value \<times> string) option"
where
  "parse_value s =
     (case skip_ws s of
        [] \<Rightarrow> None
      | c # cs \<Rightarrow>
          if c = CHR ''{'' then
            (case skip_ws cs of
               [] \<Rightarrow> None
             | d # ds \<Rightarrow> if d = CHR ''}'' then Some (JObj [], ds) else parse_members [] cs)
          else if c = CHR ''['' then
            (case skip_ws cs of
               [] \<Rightarrow> None
             | d # ds \<Rightarrow> if d = CHR '']'' then Some (JArr [], ds) else parse_elements [] cs)
          else if c = CHR 0x22 then
            (case parse_string cs of None \<Rightarrow> None | Some (t, r) \<Rightarrow> Some (JStr t, r))
          else if c = CHR ''t'' then
            (if take 3 cs = ''rue'' then Some (JBool True, drop 3 cs) else None)
          else if c = CHR ''f'' then
            (if take 4 cs = ''alse'' then Some (JBool False, drop 4 cs) else None)
          else if c = CHR ''n'' then
            (if take 3 cs = ''ull'' then Some (JNull, drop 3 cs) else None)
          else parse_number (c # cs))"
| "parse_elements acc s =
     (case parse_value s of
        None \<Rightarrow> None
      | Some (v, r) \<Rightarrow>
          if length r < length s then
            (case skip_ws r of
               [] \<Rightarrow> None
             | d # ds \<Rightarrow>
                 if d = CHR '','' then parse_elements (acc @ [v]) ds
                 else if d = CHR '']'' then Some (JArr (acc @ [v]), ds)
                 else None)
          else None)"
| "parse_members acc s =
     (case skip_ws s of
        [] \<Rightarrow> None
      | c # cs \<Rightarrow>
          if c = CHR 0x22 then
            (case parse_string cs of
               None \<Rightarrow> None
             | Some (k, r) \<Rightarrow>
                 (case skip_ws r of
                    [] \<Rightarrow> None
                  | d # ds \<Rightarrow>
                      if d = CHR '':'' \<and> length ds < length s then
                        (case parse_value ds of
                           None \<Rightarrow> None
                         | Some (v, r') \<Rightarrow>
                             if length r' < length ds then
                               (case skip_ws r' of
                                  [] \<Rightarrow> None
                                | x # xs \<Rightarrow>
                                    if x = CHR '','' then parse_members (define_property acc k v) xs
                                    else if x = CHR ''}'' then Some (JObj (define_property acc k v), xs)
                                    else None)
                             else None)
                      else None))
          else None)"
  by pat_completeness auto

termination
proof (relation "measure (\<lambda>x. case x of
                     Inl s \<Rightarrow> 2 * length s
                   | Inr (Inl (acc, s)) \<Rightarrow> 2 * length s + 1
                   | Inr (Inr (acc, s)) \<Rightarrow> 2 * length s + 1)", goal_cases)
  case 1
  show ?case by simp
next
  case (2 s c cs d ds)
  then show ?case using skip_ws_Cons_length [of s c cs] by simp
next
  case (3 s c cs d ds)
  then show ?case using skip_ws_Cons_length [of s c cs] by simp
next
  case (4 acc s)
  show ?case by simp
next
  case (5 acc s x v r d ds)
  then show ?case using skip_ws_Cons_length [of r d ds] by simp
next
  case (6 acc s c cs x k r d ds)
  then show ?case by simp
next
  case (7 acc s c cs x k r d ds y v r' z zs)
  then show ?case using skip_ws_Cons_length [of r' z zs] by simp
qed

declare parse_value.simps [simp del] parse_elements.simps [simp del] parse_members.simps [simp del]

text \<open>\<^verbatim>\<open>JSON.parse(text)\<close>: one value, with nothing but white space after it.\<close>

definition JSON_parse :: "string \<Rightarrow> js_error + js_value" where
  "JSON_parse s =
     (case parse_value s of
        None \<Rightarrow> Inl SyntaxError
      | Some (v, r) \<Rightarrow> if skip_ws r = [] then Inr v else Inl SyntaxError)"

text \<open>\<^verbatim>\<open>JSON.parse(v)\<close> of a value that is not known to be a string: the argument is
  coerced to a string first.\<close>

definition JSON_parse_value :: "js_value \<Rightarrow> js_error + js_value" where
  "JSON_parse_value v = (case ToString v of Inl e \<Rightarrow> Inl e | Inr t \<Rightarrow> JSON_parse t)"

definition and_then :: "'e + 'a \<Rightarrow> ('a \<Rightarrow> 'e + 'b) \<Rightarrow> 'e + 'b" where
  "and_then m f = (case m of Inl e \<Rightarrow> Inl e | Inr x \<Rightarrow> f x)"

section \<open>The host: parameters, files and the endpoint\<close>

text \<open>Base64 with the standard alphabet and padding, as the host's \<^verbatim>\<open>readAsBase64\<close>
  returns it.\<close>

definition base64_char :: "int \<Rightarrow> char" where
  "base64_char n =
     (if n < 26 then char_of (65 + n)
      else if n < 52 then char_of (71 + n)
      else if n < 62 then char_of (n - 4)
      else if n = 62 then CHR ''+''
      else CHR ''/'')"

fun base64 :: "string \<Rightarrow> string" where
  "base64 [] = []"
| "base64 [a] =
     (let x = (of_char a :: int)
      in [base64_char (x div 4), base64_char (x mod 4 * 16), CHR ''='', CHR ''=''])"
| "base64 [a, b] =
     (let x = (of_char a :: int); y = (of_char b :: int)
      in [base64_char (x div 4), base64_char (x mod 4 * 16 + y div 16),
          base64_char (y mod 16 * 4), CHR ''=''])"
| "base64 (a # b # c # cs) =
     (let x = (of_char a :: int); y = (of_char b :: int); z = (of_char c :: int)
      in [base64_char (x div 4), base64_char (x mod 4 * 16 + y div 16),
          base64_char (y mod 16 * 4 + z div 64), base64_char (z mod 64)] @ base64 cs)"

record request =
  url :: string
  http_method :: string
  headers :: "(string \<times> string) list"
  body :: string

record response =
  status :: int
  statusText :: string
  payload :: string

text \<open>\<^verbatim>\<open>response.ok\<close>: the status is in the range 200 to 299.\<close>

definition ok :: "response \<Rightarrow> bool" where
  "ok r = (200 \<le> status r \<and> status r \<le> 299)"

text \<open>What a run does to the world outside, in order.\<close>

datatype event =
    ReadFile string
  | ReadFileAsBase64 string
  | ConsoleLog string
  | Fetch request

text \<open>
  \<^verbatim>\<open>context.parameters\<close>, the files behind \<^verbatim>\<open>context.getFile\<close> (the bytes of each readable
  path) and the remote side behind the global \<^verbatim>\<open>fetch\<close>. The remote side sees what has
  happened so far, so its replies may change from one call to the next; it either rejects
  (a network failure) or resolves to a response.
\<close>

record "context" =
  inputDataPath :: string
  documentPath :: string
  dasConnector :: string
  applicationId :: string
  files :: "string \<Rightarrow> string option"
  endpoint :: "event list \<Rightarrow> request \<Rightarrow> js_error + response"

text \<open>
  The effects are threaded through as the list of events so far. \<open>read\<close> and
  \<open>readAsBase64\<close> are the two methods of \<^verbatim>\<open>context.getFile(path)\<close>; the second returns the
  base64 text of the file's bytes.
\<close>

definition read :: "context \<Rightarrow> string \<Rightarrow> event list \<Rightarrow> (js_error + string) \<times> event list" where
  "read ctx path h =
     (case files ctx path of
        None \<Rightarrow> (Inl (ResourceReadError path), h @ [ReadFile path])
      | Some bytes \<Rightarrow> (Inr bytes, h @ [ReadFile path]))"

definition readAsBase64 :: "context \<Rightarrow> string \<Rightarrow> event list \<Rightarrow> (js_error + string) \<times> event list" where
  "readAsBase64 ctx path h =
     (case files ctx path of
        None \<Rightarrow> (Inl (ResourceReadError path), h @ [ReadFileAsBase64 path])
      | Some bytes \<Rightarrow> (Inr (base64 bytes), h @ [ReadFileAsBase64 path]))"

definition fetch :: "context \<Rightarrow> request \<Rightarrow> event list \<Rightarrow> (js_error + response) \<times> event list" where
  "fetch ctx req h = (endpoint ctx h req, h @ [Fetch req])"

text \<open>
  \<^verbatim>\<open>response.json()\<close> decodes the bytes of the body as UTF-8 and parses the text. The
  decoder drops a byte-order mark at the start and puts the replacement character U+FFFD
  for every byte sequence that is not well formed: \<open>utf8_decode_from needed lo hi pending\<close>
  is in the middle of a character that needs \<open>needed\<close> more bytes, the next of them between
  \<open>lo\<close> and \<open>hi\<close>.
\<close>

definition replacement_character :: string where
  "replacement_character = [CHR 0xEF, CHR 0xBF, CHR 0xBD]"

fun utf8_decode_from :: "int \<Rightarrow> int \<Rightarrow> int \<Rightarrow> string \<Rightarrow> string \<Rightarrow> string" where
  "utf8_decode_from needed lo hi pending [] = (if needed = 0 then [] else replacement_character)"
| "utf8_decode_from needed lo hi pending (c # cs) =
     (if needed \<noteq> 0 \<and> lo \<le> (of_char c :: int) \<and> (of_char c :: int) \<le> hi then
        (if needed = 1 then pending @ c # utf8_decode_from 0 128 191 [] cs
         else utf8_decode_from (needed - 1) 128 191 (pending @ [c]) cs)
      else
        (if needed \<noteq> 0 then replacement_character else [])
        @ (if (of_char c :: int) < 128 then c # utf8_decode_from 0 128 191 [] cs
           else if 194 \<le> (of_char c :: int) \<and> (of_char c :: int) \<le> 223
             then utf8_decode_from 1 128 191 [c] cs
           else if 224 \<le> (of_char c :: int) \<and> (of_char c :: int) \<le> 239
             then utf8_decode_from 2 (if (of_char c :: int) = 224 then 160 else 128)
                    (if (of_char c :: int) = 237 then 159 else 191) [c] cs
           else if 240 \<le> (of_char c :: int) \<and> (of_char c :: int) \<le> 244
             then utf8_decode_from 3 (if (of_char c :: int) = 240 then 144 else 128)
                    (if (of_char c :: int) = 244 then 143 else 191) [c] cs
           else replacement_character @ utf8_decode_from 0 128 191 [] cs))"

definition utf8_decode :: "string \<Rightarrow> string" where
  "utf8_decode bytes =
     utf8_decode_from 0 128 191 []
       (if take 3 bytes = [CHR 0xEF, CHR 0xBB, CHR 0xBF] then drop 3 bytes else bytes)"

text \<open>The headers of a request are kept as the scripts write them.\<close>

definition json :: "response \<Rightarrow> js_error + js_value" where
  "json r = JSON_parse (utf8_decode (payload r))"

definition request_headers :: "(string \<times> string) list" where
  "request_headers = [(''Content-Type'', ''application/json''), (''Accept'', ''application/json'')]"

text \<open>The error of a reply that is not OK, with the message the template literal builds.\<close>

definition non_ok_error :: "response \<Rightarrow> js_value \<Rightarrow> js_error" where
  "non_ok_error r j =
     Error (''Non-OK DAS API response: '' @ number_to_string (Decimal (status r) 0) @ '' ''
            @ statusText r @ '':'' @ JSON_stringify j)"

definition metadata_entry :: "string \<Rightarrow> string \<Rightarrow> js_value \<Rightarrow> js_value" where
  "metadata_entry n t v =
     JObj [(''name'', JStr n), (''type'', JStr t), (''value'', v), (''isReadOnly'', JBool True)]"

section \<open>The scripts\<close>

text \<open>\<open>readDocumentAsBase64\<close> is the same function in the three files.\<close>

definition readDocumentAsBase64 :: "context \<Rightarrow> event list \<Rightarrow> (js_error + string) \<times> event list" where
  "readDocumentAsBase64 ctx h = readAsBase64 ctx (documentPath ctx) h"

subsection \<open>The two scripts that take the first client\<close>

text \<open>\<open>readInputFile\<close> of the two unnamed parts: read the input and parse it.\<close>

definition readInputFile :: "context \<Rightarrow> event list \<Rightarrow> (js_error + js_value) \<times> event list" where
  "readInputFile ctx h =
     (case read ctx (inputDataPath ctx) h of
        (Inl e, h1) \<Rightarrow> (Inl e, h1)
      | (Inr inputData, h1) \<Rightarrow> (JSON_parse inputData, h1))"

text \<open>
  The object literal of \<open>uploadDocument\<close> in the two unnamed parts reads the same
  properties of \<open>data\<close>, in this order; the document is read last, after them.
\<close>

definition metadata :: "js_value \<Rightarrow> js_error + js_value" where
  "metadata data =
     and_then (js_get data ''hotel'') (\<lambda>hotel.
     and_then (js_get hotel ''name'') (\<lambda>hotelName.
     and_then (js_get data ''checkInDate'') (\<lambda>checkInDate.
     and_then (js_get data ''checkOutDate'') (\<lambda>checkOutDate.
     and_then (js_get data ''guests'') (\<lambda>guests.
     and_then (js_get data ''points'') (\<lambda>points.
     and_then (js_get data ''confirmationNumber'') (\<lambda>confirmationNumber.
       Inr (JArr
         [metadata_entry ''type'' ''Text'' (JStr ''reward_activity''),
          metadata_entry ''hotelName'' ''Text'' hotelName,
          metadata_entry ''checkIn'' ''Text'' checkInDate,
          metadata_entry ''checkOut'' ''Text'' checkOutDate,
          metadata_entry ''guests'' ''Number'' guests,
          metadata_entry ''points'' ''Number'' points,
          metadata_entry ''reservationNumber'' ''Number'' confirmationNumber]))))))))"

definition document_fields :: "context \<Rightarrow> js_value \<Rightarrow> js_error + (string \<times> js_value) list" where
  "document_fields ctx data =
     and_then (js_get data ''guestClientId'') (\<lambda>clientId.
     and_then (metadata data) (\<lambda>md.
       Inr [(''clientAccessRights'',
               JArr [JObj [(''clientId'', clientId), (''right'', JStr ''Delete'')]]),
            (''fileName'', JStr ''invoice.pdf''),
            (''name'', JStr ''Invoice''),
            (''applicationId'', JStr (applicationId ctx)),
            (''publicAccessRight'', JStr ''None''),
            (''metadata'', md)]))"

definition request_body :: "(string \<times> js_value) list \<Rightarrow> js_value \<Rightarrow> js_value" where
  "request_body props fileContent =
     JObj [(''documents'', JArr [JObj (props @ [(''fileContent'', fileContent)])])]"

text \<open>\<open>uploadDocument\<close> of \<^verbatim>\<open>part_001\<close>, which returns nothing.\<close>

definition uploadDocument_part_001 ::
  "context \<Rightarrow> js_value \<Rightarrow> event list \<Rightarrow> (js_error + unit) \<times> event list" where
  "uploadDocument_part_001 ctx data h =
     (case document_fields ctx data of
        Inl e \<Rightarrow> (Inl e, h)
      | Inr props \<Rightarrow>
          (case readDocumentAsBase64 ctx h of
             (Inl e, h1) \<Rightarrow> (Inl e, h1)
           | (Inr fileContent, h1) \<Rightarrow>
               (case fetch ctx \<lparr>url = dasConnector ctx, http_method = ''POST'',
                                headers = request_headers,
                                body = JSON_stringify (request_body props (JStr fileContent))\<rparr> h1 of
                  (Inl e, h2) \<Rightarrow> (Inl e, h2)
                | (Inr response, h2) \<Rightarrow>
                    (case json response of
                       Inl e \<Rightarrow> (Inl e, h2)
                     | Inr j \<Rightarrow>
                         if \<not> ok response then (Inl (non_ok_error response j), h2)
                         else (Inr (), h2)))))"

definition execute_part_001 :: "context \<Rightarrow> event list \<Rightarrow> (js_error + unit) \<times> event list" where
  "execute_part_001 ctx h =
     (case readInputFile ctx h of
        (Inl e, h1) \<Rightarrow> (Inl e, h1)
      | (Inr input, h1) \<Rightarrow>
          (case and_then (js_get input ''Clients'') js_index0 of
             Inl e \<Rightarrow> (Inl e, h1)
           | Inr client \<Rightarrow> uploadDocument_part_001 ctx client h1))"

text \<open>\<open>uploadDocument\<close> of \<^verbatim>\<open>part_000\<close>, which returns \<^verbatim>\<open>JSON.parse(json)\<close>.\<close>

definition uploadDocument_part_000 ::
  "context \<Rightarrow> js_value \<Rightarrow> event list \<Rightarrow> (js_error + js_value) \<times> event list" where
  "uploadDocument_part_000 ctx data h =
     (case document_fields ctx data of
        Inl e \<Rightarrow> (Inl e, h)
      | Inr props \<Rightarrow>
          (case readDocumentAsBase64 ctx h of
             (Inl e, h1) \<Rightarrow> (Inl e, h1)
           | (Inr fileContent, h1) \<Rightarrow>
               (case fetch ctx \<lparr>url = dasConnector ctx, http_method = ''POST'',
                                headers = request_headers,
                                body = JSON_stringify (request_body props (JStr fileContent))\<rparr> h1 of
                  (Inl e, h2) \<Rightarrow> (Inl e, h2)
                | (Inr response, h2) \<Rightarrow>
                    (case json response of
                       Inl e \<Rightarrow> (Inl e, h2)
                     | Inr j \<Rightarrow>
                         if \<not> ok response then (Inl (non_ok_error response j), h2)
                         else (JSON_parse_value j, h2)))))"

text \<open>
  \<open>getDocumentId\<close>: the \<^verbatim>\<open>return\<close> inside the arrow function returns from the arrow
  function, whose result \<^verbatim>\<open>forEach\<close> discards; the statement after the loop throws.
\<close>

definition getDocumentId :: "js_value \<Rightarrow> js_error + js_value" where
  "getDocumentId response =
     and_then (js_get response ''documents'') (\<lambda>documents.
     and_then (js_forEach documents (\<lambda>document.
                 and_then (js_get document ''documentIndex'') (\<lambda>documentIndex.
                   if strict_equals_zero documentIndex then js_get document ''id''
                   else Inr JUndefined))) (\<lambda>_.
       Inl (Error ''No document ID found in upload response'')))"

record Output =
  documentId :: js_value

definition execute_part_000 :: "context \<Rightarrow> event list \<Rightarrow> (js_error + Output) \<times> event list" where
  "execute_part_000 ctx h =
     (case readInputFile ctx h of
        (Inl e, h1) \<Rightarrow> (Inl e, h1)
      | (Inr input, h1) \<Rightarrow>
          (case and_then (and_then (js_get input ''Clients'') js_index0)
                  (\<lambda>client. js_get client ''Reservation'') of
             Inl e \<Rightarrow> (Inl e, h1)
           | Inr reservation \<Rightarrow>
               (case uploadDocument_part_000 ctx reservation h1 of
                  (Inl e, h2) \<Rightarrow> (Inl e, h2)
                | (Inr response, h2) \<Rightarrow>
                    (case getDocumentId response of
                       Inl e \<Rightarrow> (Inl e, h2)
                     | Inr d \<Rightarrow> (Inr \<lparr>documentId = d\<rparr>, h2)))))"

subsection \<open>The script that takes the input as one record (\<^verbatim>\<open>src/index.ts\<close>)\<close>

definition readInputFile_index :: "context \<Rightarrow> event list \<Rightarrow> (js_error + string) \<times> event list" where
  "readInputFile_index ctx h = read ctx (inputDataPath ctx) h"

definition metadata_index :: "js_value \<Rightarrow> js_error + js_value" where
  "metadata_index jsonData =
     and_then (js_get jsonData ''hotelName'') (\<lambda>hotelName.
     and_then (js_get jsonData ''checkInDate'') (\<lambda>checkInDate.
     and_then (js_get jsonData ''checkOutDate'') (\<lambda>checkOutDate.
     and_then (js_get jsonData ''guests'') (\<lambda>guests.
     and_then (js_get jsonData ''points'') (\<lambda>points.
     and_then (js_get jsonData ''reservationNumber'') (\<lambda>reservationNumber.
       Inr (JArr
         [metadata_entry ''type'' ''Text'' (JStr ''reward_activity''),
          metadata_entry ''hotelName'' ''Text'' hotelName,
          metadata_entry ''checkIn'' ''Text'' checkInDate,
          metadata_entry ''checkOut'' ''Text'' checkOutDate,
          metadata_entry ''guests'' ''Number'' guests,
          metadata_entry ''points'' ''Number'' points,
          metadata_entry ''reservationNumber'' ''Number'' reservationNumber])))))))"

definition document_fields_index :: "context \<Rightarrow> js_value \<Rightarrow> js_error + (string \<times> js_value) list" where
  "document_fields_index ctx jsonData =
     and_then (js_get jsonData ''guestClientId'') (\<lambda>clientId.
     and_then (metadata_index jsonData) (\<lambda>md.
       Inr [(''clientAccessRights'',
               JArr [JObj [(''clientId'', clientId), (''right'', JStr ''Delete'')]]),
            (''fileName'', JStr ''string''),
            (''name'', JStr ''string''),
            (''applicationId'', JStr (applicationId ctx)),
            (''publicAccessRight'', JStr ''None''),
            (''metadata'', md)]))"

text \<open>
  Here \<^verbatim>\<open>fileContent\<close> is \<^verbatim>\<open>readDocumentAsBase64(context)\<close> without \<^verbatim>\<open>await\<close>: the call
  starts the read and its promise goes into the body as it is, whatever the read gives
  (what the host does with a rejection nobody handles is not part of the script). The
  second log line prints the response object, \<^verbatim>\<open>[object Response]\<close>.
\<close>

definition uploadDocument_index ::
  "context \<Rightarrow> string \<Rightarrow> event list \<Rightarrow> (js_error + unit) \<times> event list" where
  "uploadDocument_index ctx data h =
     (case JSON_parse data of
        Inl e \<Rightarrow> (Inl e, h)
      | Inr jsonData \<Rightarrow>
          (case document_fields_index ctx jsonData of
             Inl e \<Rightarrow> (Inl e, h)
           | Inr props \<Rightarrow>
               (let h1 = snd (readDocumentAsBase64 ctx h);
                    h2 = h1 @ [ConsoleLog ''Calling DAS API to upload document'']
                in case fetch ctx \<lparr>url = dasConnector ctx @ ''/api/query/MobileBackend/ContentUploadV4'',
                                   http_method = ''POST'', headers = request_headers,
                                   body = JSON_stringify (request_body props JPromise)\<rparr> h2 of
                     (Inl e, h3) \<Rightarrow> (Inl e, h3)
                   | (Inr response, h3) \<Rightarrow>
                       (let h4 = h3 @ [ConsoleLog ''DAS API response: [object Response]'']
                        in case json response of
                             Inl e \<Rightarrow> (Inl e, h4)
                           | Inr j \<Rightarrow>
                               if \<not> ok response then (Inl (non_ok_error response j), h4)
                               else (Inr (), h4)))))"

definition execute_index :: "context \<Rightarrow> event list \<Rightarrow> (js_error + unit) \<times> event list" where
  "execute_index ctx h =
     (case readInputFile_index ctx h of
        (Inl e, h1) \<Rightarrow> (Inl e, h1)
      | (Inr inputJson, h1) \<Rightarrow> uploadDocument_index ctx inputJson h1)"

section \<open>The objects of a run\<close>

text \<open>
  The scripts above are functions of the values they read: no statement of the source
  assigns to a property of an object. To say that an object is left as it was, the two
  scripts that take the first client are written once more with the objects that hold
  the data made explicit. The store is the list of the objects created so far, oldest
  first, and the address of an object is its position. \<^verbatim>\<open>JSON.parse\<close> and
  \<^verbatim>\<open>response.json()\<close> create an object (with the objects nested in it) and yield its
  address, and so do the literal of the body and the literal of the result; a variable
  that holds an object holds the address, and reads go through the store. A reference to
  a part of an object is the address and the path of property reads that leads to the
  part; a property of the body that was read from the record holds the value read. The
  result and the events are those of the scripts above (lemmas
  \<open>execute_part_000_store_refines\<close> and \<open>execute_part_001_store_refines\<close>).
\<close>

type_synonym store = "js_value list"

definition alloc :: "js_value \<Rightarrow> store \<Rightarrow> nat \<times> store" where
  "alloc v s = (length s, s @ [v])"

datatype selector = Property string | Index0

fun select :: "js_value \<Rightarrow> selector list \<Rightarrow> js_error + js_value" where
  "select v [] = Inr v"
| "select v (Property k # p) = and_then (js_get v k) (\<lambda>w. select w p)"
| "select v (Index0 # p) = and_then (js_index0 v) (\<lambda>w. select w p)"

text \<open>Reading through a reference. An address is always that of an object created
  before; for any other address the read is made to throw.\<close>

definition deref :: "store \<Rightarrow> nat \<times> selector list \<Rightarrow> js_error + js_value" where
  "deref s r = (if fst r < length s then select (s ! fst r) (snd r) else Inl TypeError)"

definition readInputFile_store ::
  "context \<Rightarrow> store \<Rightarrow> event list \<Rightarrow> (js_error + nat) \<times> store \<times> event list" where
  "readInputFile_store ctx s h =
     (case read ctx (inputDataPath ctx) h of
        (Inl e, h1) \<Rightarrow> (Inl e, s, h1)
      | (Inr inputData, h1) \<Rightarrow>
          (case JSON_parse inputData of
             Inl e \<Rightarrow> (Inl e, s, h1)
           | Inr v \<Rightarrow> (let (a, s1) = alloc v s in (Inr a, s1, h1))))"

text \<open>
  The statements of \<open>uploadDocument\<close> up to the reply, the same in both scripts: the body
  literal (its property reads go through the reference \<open>data\<close>) and the request. It yields
  the reply and the address of the parsed body of the reply.
\<close>

definition upload_store ::
  "context \<Rightarrow> nat \<times> selector list \<Rightarrow> store \<Rightarrow> event list
     \<Rightarrow> (js_error + response \<times> nat) \<times> store \<times> event list" where
  "upload_store ctx data s h =
     (case and_then (deref s data) (document_fields ctx) of
        Inl e \<Rightarrow> (Inl e, s, h)
      | Inr props \<Rightarrow>
          (case readDocumentAsBase64 ctx h of
             (Inl e, h1) \<Rightarrow> (Inl e, s, h1)
           | (Inr fileContent, h1) \<Rightarrow>
               (let (body_address, s2) = alloc (request_body props (JStr fileContent)) s
                in case fetch ctx \<lparr>url = dasConnector ctx, http_method = ''POST'',
                                   headers = request_headers,
                                   body = JSON_stringify (s2 ! body_address)\<rparr> h1 of
                     (Inl e, h2) \<Rightarrow> (Inl e, s2, h2)
                   | (Inr response, h2) \<Rightarrow>
                       (case json response of
                          Inl e \<Rightarrow> (Inl e, s2, h2)
                        | Inr j \<Rightarrow>
                            (let (json_address, s3) = alloc j s2
                             in if \<not> ok response
                                then (Inl (non_ok_error response (s3 ! json_address)), s3, h2)
                                else (Inr (response, json_address), s3, h2))))))"

definition uploadDocument_part_001_store ::
  "context \<Rightarrow> nat \<times> selector list \<Rightarrow> store \<Rightarrow> event list
     \<Rightarrow> (js_error + unit) \<times> store \<times> event list" where
  "uploadDocument_part_001_store ctx data s h =
     (case upload_store ctx data s h of
        (Inl e, s1, h1) \<Rightarrow> (Inl e, s1, h1)
      | (Inr _, s1, h1) \<Rightarrow> (Inr (), s1, h1))"

definition execute_part_001_store ::
  "context \<Rightarrow> store \<Rightarrow> event list \<Rightarrow> (js_error + unit) \<times> store \<times> event list" where
  "execute_part_001_store ctx s h =
     (case readInputFile_store ctx s h of
        (Inl e, s1, h1) \<Rightarrow> (Inl e, s1, h1)
      | (Inr input, s1, h1) \<Rightarrow>
          (case deref s1 (input, [Property ''Clients'', Index0]) of
             Inl e \<Rightarrow> (Inl e, s1, h1)
           | Inr _ \<Rightarrow>
               uploadDocument_part_001_store ctx (input, [Property ''Clients'', Index0]) s1 h1))"

definition uploadDocument_part_000_store ::
  "context \<Rightarrow> nat \<times> selector list \<Rightarrow> store \<Rightarrow> event list
     \<Rightarrow> (js_error + nat) \<times> store \<times> event list" where
  "uploadDocument_part_000_store ctx data s h =
     (case upload_store ctx data s h of
        (Inl e, s1, h1) \<Rightarrow> (Inl e, s1, h1)
      | (Inr (response, json_address), s1, h1) \<Rightarrow>
          (case JSON_parse_value (s1 ! json_address) of
             Inl e \<Rightarrow> (Inl e, s1, h1)
           | Inr v \<Rightarrow> (let (a, s2) = alloc v s1 in (Inr a, s2, h1))))"

definition execute_part_000_store ::
  "context \<Rightarrow> store \<Rightarrow> event list \<Rightarrow> (js_error + Output) \<times> store \<times> event list" where
  "execute_part_000_store ctx s h =
     (case readInputFile_store ctx s h of
        (Inl e, s1, h1) \<Rightarrow> (Inl e, s1, h1)
      | (Inr input, s1, h1) \<Rightarrow>
          (case deref s1 (input, [Property ''Clients'', Index0, Property ''Reservation'']) of
             Inl e \<Rightarrow> (Inl e, s1, h1)
           | Inr _ \<Rightarrow>
               (case uploadDocument_part_000_store ctx
                       (input, [Property ''Clients'', Index0, Property ''Reservation'']) s1 h1 of
                  (Inl e, s2, h2) \<Rightarrow> (Inl e, s2, h2)
                | (Inr response, s2, h2) \<Rightarrow>
                    (case getDocumentId (s2 ! response) of
                       Inl e \<Rightarrow> (Inl e, s2, h2)
                     | Inr d \<Rightarrow>
                         (let (a, s3) = alloc (JObj [(''documentId'', d)]) s2
                          in (Inr \<lparr>documentId = d\<rparr>, s3, h2))))))"

text \<open>The store a run ends with.\<close>

definition final_store :: "'a \<times> store \<times> event list \<Rightarrow> store" where
  "final_store r = fst (snd r)"

section \<open>The declared shapes of the data\<close>

text \<open>
  The interfaces of \<^verbatim>\<open>part_000\<close>, as records, and the value each denotes at run time. A
  field named \<^verbatim>\<open>id\<close> or \<^verbatim>\<open>name\<close> carries the name of its interface here, and the field
  \<^verbatim>\<open>Reservation\<close> of a client is written \<open>reservation\<close>. The interface declares
  \<^verbatim>\<open>documents\<close> as a tuple of one \<^verbatim>\<open>DocumentProps\<close>; at run time it is an array. The client
  of \<^verbatim>\<open>part_001\<close> holds the fields of a reservation itself, and \<^verbatim>\<open>src/index.ts\<close> declares no
  shape for its input.
\<close>

record Hotel =
  hotel_id :: number
  hotel_name :: string
  location :: string
  imageName :: string
  checkInTime :: string
  checkOutTime :: string
  rating :: number
  conciergeUrl :: string

record Reservation =
  reservation_id :: number
  hotel :: Hotel
  confirmationNumber :: number
  guests :: number
  creditPrefix :: number
  creditSuffix :: number
  points :: number
  checkInDate :: string
  checkOutDate :: string
  checkedIn :: bool
  guestName :: string
  guestEmail :: string
  guestClientId :: string

record Client =
  ClientID :: string
  reservation :: Reservation

record InvoicePayload =
  Clients :: "Client list"

record DocumentProps =
  documentIndex :: number
  document_id :: number

record UploadResponse =
  eventId :: string
  documents :: "DocumentProps list"

definition js_of_Hotel :: "Hotel \<Rightarrow> js_value" where
  "js_of_Hotel x =
     JObj [(''id'', JNum (hotel_id x)), (''name'', JStr (hotel_name x)),
           (''location'', JStr (location x)), (''imageName'', JStr (imageName x)),
           (''checkInTime'', JStr (checkInTime x)), (''checkOutTime'', JStr (checkOutTime x)),
           (''rating'', JNum (rating x)), (''conciergeUrl'', JStr (conciergeUrl x))]"

definition js_of_Reservation :: "Reservation \<Rightarrow> js_value" where
  "js_of_Reservation r =
     JObj [(''id'', JNum (reservation_id r)), (''hotel'', js_of_Hotel (hotel r)),
           (''confirmationNumber'', JNum (confirmationNumber r)), (''guests'', JNum (guests r)),
           (''creditPrefix'', JNum (creditPrefix r)), (''creditSuffix'', JNum (creditSuffix r)),
           (''points'', JNum (points r)), (''checkInDate'', JStr (checkInDate r)),
           (''checkOutDate'', JStr (checkOutDate r)), (''checkedIn'', JBool (checkedIn r)),
           (''guestName'', JStr (guestName r)), (''guestEmail'', JStr (guestEmail r)),
           (''guestClientId'', JStr (guestClientId r))]"

definition js_of_Client :: "Client \<Rightarrow> js_value" where
  "js_of_Client c =
     JObj [(''ClientID'', JStr (ClientID c)), (''Reservation'', js_of_Reservation (reservation c))]"

definition js_of_InvoicePayload :: "InvoicePayload \<Rightarrow> js_value" where
  "js_of_InvoicePayload p = JObj [(''Clients'', JArr (map js_of_Client (Clients p)))]"

definition js_of_DocumentProps :: "DocumentProps \<Rightarrow> js_value" where
  "js_of_DocumentProps d =
     JObj [(''documentIndex'', JNum (documentIndex d)), (''id'', JNum (document_id d))]"

definition js_of_UploadResponse :: "UploadResponse \<Rightarrow> js_value" where
  "js_of_UploadResponse u =
     JObj [(''eventId'', JStr (eventId u)),
           (''documents'', JArr (map js_of_DocumentProps (documents u)))]"

section \<open>Requests of a run, and example data\<close>

fun requests :: "event list \<Rightarrow> request list" where
  "requests [] = []"
| "requests (Fetch r # evs) = r # requests evs"
| "requests (_ # evs) = requests evs"

text \<open>The requests a run sent: those among the events it added to the history \<open>h\<close>.\<close>

definition issued :: "event list \<Rightarrow> 'a \<times> event list \<Rightarrow> request list" where
  "issued h result = requests (drop (length h) (snd result))"

text \<open>The history after \<open>n\<close> runs in a row, each starting where the last one ended.\<close>

fun run_times :: "nat \<Rightarrow> (event list \<Rightarrow> 'a \<times> event list) \<Rightarrow> event list \<Rightarrow> event list" where
  "run_times 0 run h = h"
| "run_times (Suc n) run h = run_times n run (snd (run h))"

text \<open>An input of \<^verbatim>\<open>part_000\<close>, the same data for \<^verbatim>\<open>part_001\<close> (whose client holds the
  fields itself), and the record of the specification's example, for \<^verbatim>\<open>src/index.ts\<close>.\<close>

definition example_input :: string where
  \<open>example_input = ''{"Clients":[{"ClientID":"c-9","Reservation":{"id":7,"hotel":{"id":3,"name":"Grand Hotel","location":"Prague","imageName":"grand.png","checkInTime":"15:00","checkOutTime":"11:00","rating":4.5,"conciergeUrl":"https://example.com"},"confirmationNumber":1234,"guests":2,"creditPrefix":1,"creditSuffix":2,"points":150,"checkInDate":"2023-05-01","checkOutDate":"2023-05-03","checkedIn":false,"guestName":"A","guestEmail":"a@example.com","guestClientId":"c-9"}}]}''\<close>

definition example_reservation :: Reservation where
  "example_reservation =
     \<lparr>reservation_id = Decimal 7 0,
      hotel = \<lparr>hotel_id = Decimal 3 0, hotel_name = ''Grand Hotel'', location = ''Prague'',
               imageName = ''grand.png'', checkInTime = ''15:00'', checkOutTime = ''11:00'',
               rating = Decimal 45 (- 1), conciergeUrl = ''https://example.com''\<rparr>,
      confirmationNumber = Decimal 1234 0, guests = Decimal 2 0, creditPrefix = Decimal 1 0,
      creditSuffix = Decimal 2 0, points = Decimal 150 0, checkInDate = ''2023-05-01'',
      checkOutDate = ''2023-05-03'', checkedIn = False, guestName = ''A'',
      guestEmail = ''a@example.com'', guestClientId = ''c-9''\<rparr>"

definition example_payload :: InvoicePayload where
  "example_payload = \<lparr>Clients = [\<lparr>ClientID = ''c-9'', reservation = example_reservation\<rparr>]\<rparr>"

definition example_client_input :: string where
  \<open>example_client_input = ''{"Clients":[{"ClientID":"c-9","id":7,"hotel":{"id":3,"name":"Grand Hotel","location":"Prague","imageName":"grand.png","checkInTime":"15:00","checkOutTime":"11:00","rating":4.5,"conciergeUrl":"https://example.com"},"checkedIn":false,"confirmationNumber":1234,"guests":2,"creditPrefix":1,"creditSuffix":2,"checkInDate":"2023-05-01","checkOutDate":"2023-05-03","points":150,"guestName":"A","guestEmail":"a@example.com","guestClientId":"c-9"}]}''\<close>

definition example_record_input :: string where
  \<open>example_record_input = ''{ "hotelName": "Grand Hotel", "checkInDate": "2023-05-01", "checkOutDate": "2023-05-03", "guests": 2, "points": 150, "confirmationNumber": 1234, "guestClientId": "c-9" }''\<close>

text \<open>A host with the input at \<^verbatim>\<open>in.json\<close>, a document of ten bytes at \<^verbatim>\<open>doc.pdf\<close>, and
  an endpoint that answers every request with \<open>reply\<close>.\<close>

definition example_context :: "string \<Rightarrow> js_error + response \<Rightarrow> context" where
  "example_context input reply =
     \<lparr>inputDataPath = ''in.json'', documentPath = ''doc.pdf'',
      dasConnector = ''https://das.example.com'', applicationId = ''app-1'',
      files = (\<lambda>p. if p = ''in.json'' then Some input
                    else if p = ''doc.pdf'' then Some ''0123456789'' else None),
      endpoint = (\<lambda>h r. reply)\<rparr>"

text \<open>Replies: a success with a well-formed body; a success whose body is a JSON string
  that holds the text of a response without an entry of index 0; a 404 with a JSON body;
  a 502 whose body is not JSON.\<close>

definition example_reply :: response where
  \<open>example_reply =
     \<lparr>status = 200, statusText = ''OK'',
      payload = ''{"eventId":"e1","documents":[{"documentIndex":0,"id":42}]}''\<rparr>\<close>

definition example_upload_response :: UploadResponse where
  "example_upload_response =
     \<lparr>eventId = ''e1'',
      documents = [\<lparr>documentIndex = Decimal 0 0, document_id = Decimal 42 0\<rparr>]\<rparr>"

definition string_reply :: response where
  \<open>string_reply =
     \<lparr>status = 200, statusText = ''OK'',
      payload = JSON_stringify (JStr ''{"eventId":"e1","documents":[{"documentIndex":1,"id":7}]}'')\<rparr>\<close>

definition other_upload_response :: UploadResponse where
  "other_upload_response =
     \<lparr>eventId = ''e1'',
      documents = [\<lparr>documentIndex = Decimal 1 0, document_id = Decimal 7 0\<rparr>]\<rparr>"

definition no_zero_reply :: response where
  \<open>no_zero_reply =
     \<lparr>status = 200, statusText = ''OK'',
      payload = ''{"eventId":"e1","documents":[{"documentIndex":1,"id":7}]}''\<rparr>\<close>

definition not_found_reply :: response where
  \<open>not_found_reply =
     \<lparr>status = 404, statusText = ''Not Found'', payload = ''{"error":"no such application"}''\<rparr>\<close>

definition bad_gateway_reply :: response where
  \<open>bad_gateway_reply =
     \<lparr>status = 502, statusText = ''Bad Gateway'', payload = ''<html>502 Bad Gateway</html>''\<rparr>\<close>

section \<open>Basic facts\<close>

subsection \<open>Requests and properties\<close>

lemma requests_append: "requests (xs @ ys) = requests xs @ requests ys"
  by (induction xs rule: requests.induct) simp_all

lemma issued_append [simp]: "issued h (x, h @ evs) = requests evs"
  by (simp add: issued_def)

lemma issued_Nil [simp]: "issued [] (x, evs) = requests evs"
  by (simp add: issued_def)

lemma issued_same [simp]: "issued h (x, h) = []"
  by (simp add: issued_def)

lemma get_property_Nil [simp]: "get_property [] k = JUndefined"
  by (simp add: get_property_def)

lemma get_property_Cons [simp]:
  "get_property ((k', v) # kvs) k = (if k' = k then v else get_property kvs k)"
  by (simp add: get_property_def)

lemma js_get_JObj [simp]: "js_get (JObj kvs) k = Inr (get_property kvs k)"
  by (simp add: js_get_def)

lemma JSON_parse_error: "JSON_parse s = Inl e \<Longrightarrow> e = SyntaxError"
  by (auto simp: JSON_parse_def split: option.splits if_splits)

subsection \<open>The parser consumes what it reads\<close>

lemma dropWhile_shorter: "takeWhile P xs \<noteq> [] \<Longrightarrow> length (dropWhile P xs) < length xs"
  by (cases xs) (auto simp: less_Suc_eq_le length_dropWhile_le split: if_splits)

lemma parse_int_part_shorter: "parse_int_part s = Some (neg, ip, r) \<Longrightarrow> length r < length s"
proof -
  assume a: "parse_int_part s = Some (neg, ip, r)"
  let ?s1 = "if s \<noteq> [] \<and> hd s = CHR ''-'' then tl s else s"
  from a have "takeWhile is_digit ?s1 \<noteq> []" and "r = dropWhile is_digit ?s1"
    by (auto simp: parse_int_part_def Let_def split: if_splits)
  then have "length r < length ?s1"
    using dropWhile_shorter [of is_digit ?s1] by simp
  moreover have "length ?s1 \<le> length s" by simp
  ultimately show ?thesis by linarith
qed

lemma parse_frac_part_shorter: "parse_frac_part s = Some (fp, r) \<Longrightarrow> length r \<le> length s"
  using length_dropWhile_le [of is_digit "tl s"]
  by (auto simp: parse_frac_part_def split: list.splits if_splits)

lemma parse_exp_part_shorter: "parse_exp_part s = Some (e, r) \<Longrightarrow> length r \<le> length s"
proof (cases s)
  case Nil
  then show "parse_exp_part s = Some (e, r) \<Longrightarrow> length r \<le> length s"
    by (simp add: parse_exp_part_def)
next
  case (Cons c cs)
  assume a: "parse_exp_part s = Some (e, r)"
  let ?s1 = "if cs \<noteq> [] \<and> (hd cs = CHR ''-'' \<or> hd cs = CHR ''+'') then tl cs else cs"
  have "length (dropWhile is_digit ?s1) \<le> length ?s1"
    by (rule length_dropWhile_le)
  moreover have "length ?s1 \<le> length cs" by simp
  ultimately have "length (dropWhile is_digit ?s1) \<le> length cs" by linarith
  with a Cons show ?thesis
    by (auto simp: parse_exp_part_def Let_def split: if_splits)
qed

lemma parse_number_shorter: "parse_number s = Some (v, r) \<Longrightarrow> length r < length s"
  by (fastforce simp: parse_number_def split: option.splits
      dest: parse_int_part_shorter parse_frac_part_shorter parse_exp_part_shorter)


lemma string_items_shorter:
  "string_items cs acc = Some (items, r) \<Longrightarrow> length r < length cs"
proof (induction cs arbitrary: acc rule: length_induct)
  case (1 cs)
  note IH = "1.IH" [rule_format]
  show ?case
  proof (cases cs)
    case Nil
    with "1.prems" show ?thesis by simp
  next
    case (Cons c cs1)
    show ?thesis
    proof (cases "c = CHR 0x22")
      case True
      with "1.prems" Cons show ?thesis by simp
    next
      case quote: False
      show ?thesis
      proof (cases "c = CHR 0x5C")
        case False
        with quote "1.prems" Cons
        have "string_items cs1 (acc @ [Byte c]) = Some (items, r)"
          by (simp split: if_splits)
        from IH [OF _ this] Cons show ?thesis by simp
      next
        case True
        show ?thesis
        proof (cases cs1)
          case Nil
          with True quote "1.prems" Cons show ?thesis by simp
        next
          case c2: (Cons e cs2)
          show ?thesis
          proof (cases "e = CHR ''u''")
            case False
            with True quote "1.prems" Cons c2
            obtain b where "string_items cs2 (acc @ [Byte b]) = Some (items, r)"
              by (auto split: if_splits)
            from IH [OF _ this] Cons c2 show ?thesis by simp
          next
            case u: True
            with True quote "1.prems" Cons c2
            obtain a b d f cs3 n where "cs2 = a # b # d # f # cs3"
              and "string_items cs3 (acc @ [Unit n]) = Some (items, r)"
              by (auto split: list.splits option.splits)
            from IH [OF _ this(2)] this(1) Cons c2 show ?thesis by simp
          qed
        qed
      qed
    qed
  qed
qed

lemma parse_string_shorter: "parse_string cs = Some (t, r) \<Longrightarrow> length r < length cs"
  by (auto simp: parse_string_def split: option.splits dest: string_items_shorter)

lemma skip_ws_length_Cons: "skip_ws s = c # cs \<Longrightarrow> Suc (length cs) \<le> length s"
  using length_skip_ws [of s] by simp

lemma parse_value_shorter:
  "(\<forall>v r. parse_value s = Some (v, r) \<longrightarrow> length r < length s)"
  "(\<forall>v r. parse_elements acc s = Some (v, r) \<longrightarrow> length r < length s)"
  "(\<forall>v r. parse_members kvs s = Some (v, r) \<longrightarrow> length r < length s)"
proof (induction s and acc s and kvs s rule: parse_value_parse_elements_parse_members.induct)
  case (1 s)
  show ?case
  proof (intro allI impI)
    fix v r
    assume a: "parse_value s = Some (v, r)"
    then obtain c cs where sk: "skip_ws s = c # cs"
      by (subst (asm) parse_value.simps) (auto split: list.splits)
    then have len: "Suc (length cs) \<le> length s"
      by (rule skip_ws_length_Cons)
    consider (obj) "c = CHR ''{''" | (arr) "c \<noteq> CHR ''{''" "c = CHR ''[''"
      | (other) "c \<noteq> CHR ''{''" "c \<noteq> CHR ''[''"
      by blast
    then show "length r < length s"
    proof cases
      case obj
      from a sk obj obtain d ds where sk2: "skip_ws cs = d # ds"
        by (subst (asm) parse_value.simps) (auto split: list.splits)
      show ?thesis
      proof (cases "d = CHR ''}''")
        case True
        with a sk obj sk2 have "r = ds"
          by (subst (asm) parse_value.simps) simp
        with skip_ws_length_Cons [OF sk2] len show ?thesis by simp
      next
        case False
        with a sk obj sk2 have "parse_members [] cs = Some (v, r)"
          by (subst (asm) parse_value.simps) simp
        with "1.IH"(1) [OF sk obj sk2 False] len show ?thesis by fastforce
      qed
    next
      case arr
      from a sk arr obtain d ds where sk2: "skip_ws cs = d # ds"
        by (subst (asm) parse_value.simps) (auto split: list.splits)
      show ?thesis
      proof (cases "d = CHR '']''")
        case True
        with a sk arr sk2 have "r = ds"
          by (subst (asm) parse_value.simps) simp
        with skip_ws_length_Cons [OF sk2] len show ?thesis by simp
      next
        case False
        with a sk arr sk2 have "parse_elements [] cs = Some (v, r)"
          by (subst (asm) parse_value.simps) simp
        with "1.IH"(2) [OF sk arr sk2 False] len show ?thesis by fastforce
      qed
    next
      case other
      with a sk have "length r \<le> length cs \<or> parse_number (c # cs) = Some (v, r)"
        by (subst (asm) parse_value.simps)
           (auto split: if_splits option.splits dest: parse_string_shorter)
      then show ?thesis
        using len sk length_skip_ws [of s] by (auto dest: parse_number_shorter)
    qed
  qed
next
  case (2 acc s)
  show ?case
  proof (intro allI impI)
    fix v r
    assume a: "parse_elements acc s = Some (v, r)"
    then obtain v1 r1 where pv: "parse_value s = Some (v1, r1)"
      by (subst (asm) parse_elements.simps) (auto split: option.splits)
    with "2.IH"(1) have l1: "length r1 < length s" by blast
    from a pv l1 obtain d ds where sk: "skip_ws r1 = d # ds"
      by (subst (asm) parse_elements.simps) (auto split: list.splits)
    from skip_ws_length_Cons [OF sk] l1 have l2: "length ds < length s" by simp
    show "length r < length s"
    proof (cases "d = CHR '',''")
      case True
      with a pv l1 sk have "parse_elements (acc @ [v1]) ds = Some (v, r)"
        by (subst (asm) parse_elements.simps) simp
      with "2.IH"(2) [OF pv refl l1 sk True] l2 show ?thesis by fastforce
    next
      case False
      with a pv l1 sk have "r = ds"
        by (subst (asm) parse_elements.simps) (simp split: if_splits)
      with l2 show ?thesis by simp
    qed
  qed
next
  case (3 kvs s)
  show ?case
  proof (intro allI impI)
    fix v r
    assume a: "parse_members kvs s = Some (v, r)"
    then obtain c cs where sk: "skip_ws s = c # cs" and q: "c = CHR 0x22"
      by (subst (asm) parse_members.simps) (auto split: list.splits if_splits)
    from a sk q obtain k r0 where ps: "parse_string cs = Some (k, r0)"
      by (subst (asm) parse_members.simps) (auto split: option.splits)
    from a sk q ps obtain d ds where sk2: "skip_ws r0 = d # ds"
      by (subst (asm) parse_members.simps) (auto split: list.splits)
    from a sk q ps sk2 have col: "d = CHR '':'' \<and> length ds < length s"
      by (subst (asm) parse_members.simps) (auto split: if_splits)
    from a sk q ps sk2 col obtain v1 r1 where pv: "parse_value ds = Some (v1, r1)"
      by (subst (asm) parse_members.simps) (auto split: option.splits)
    from "3.IH"(1) [OF sk q ps refl sk2 col] pv have l1: "length r1 < length ds" by blast
    from a sk q ps sk2 col pv l1 obtain x xs where sk3: "skip_ws r1 = x # xs"
      by (subst (asm) parse_members.simps) (auto split: list.splits)
    from skip_ws_length_Cons [OF sk3] l1 col have l2: "length xs < length s" by simp
    show "length r < length s"
    proof (cases "x = CHR '',''")
      case True
      with a sk q ps sk2 col pv l1 sk3
      have "parse_members (define_property kvs k v1) xs = Some (v, r)"
        by (subst (asm) parse_members.simps) simp
      with "3.IH"(2) [OF sk q ps refl sk2 col pv refl l1 sk3 True] l2 show ?thesis by fastforce
    next
      case False
      with a sk q ps sk2 col pv l1 sk3 have "r = xs"
        by (subst (asm) parse_members.simps) (simp split: if_splits)
      with l2 show ?thesis by simp
    qed
  qed
qed

text \<open>So the comparisons of lengths in \<open>parse_elements\<close> and \<open>parse_members\<close> always hold:
  the two functions satisfy their equations without them.\<close>

lemma parse_elements_unguarded:
  "parse_elements acc s =
     (case parse_value s of
        None \<Rightarrow> None
      | Some (v, r) \<Rightarrow>
          (case skip_ws r of
             [] \<Rightarrow> None
           | d # ds \<Rightarrow>
               if d = CHR '','' then parse_elements (acc @ [v]) ds
               else if d = CHR '']'' then Some (JArr (acc @ [v]), ds)
               else None))"
  using parse_value_shorter(1) [of s]
  by (subst parse_elements.simps) (auto split: option.splits)

lemma parse_members_unguarded:
  "parse_members kvs s =
     (case skip_ws s of
        [] \<Rightarrow> None
      | c # cs \<Rightarrow>
          if c = CHR 0x22 then
            (case parse_string cs of
               None \<Rightarrow> None
             | Some (k, r) \<Rightarrow>
                 (case skip_ws r of
                    [] \<Rightarrow> None
                  | d # ds \<Rightarrow>
                      if d = CHR '':'' then
                        (case parse_value ds of
                           None \<Rightarrow> None
                         | Some (v, r') \<Rightarrow>
                             (case skip_ws r' of
                                [] \<Rightarrow> None
                              | x # xs \<Rightarrow>
                                  if x = CHR '','' then parse_members (define_property kvs k v) xs
                                  else if x = CHR ''}'' then Some (JObj (define_property kvs k v), xs)
                                  else None))
                      else None))
          else None)"
proof -
  have g: "length ds < length s"
    if "skip_ws s = c # cs" "parse_string cs = Some (k, r)" "skip_ws r = d # ds" for c cs k r d ds
    using skip_ws_length_Cons [OF that(1)] parse_string_shorter [OF that(2)]
      skip_ws_length_Cons [OF that(3)] by simp
  have h: "length r' < length ds" if "parse_value ds = Some (v, r')" for ds v r'
    using parse_value_shorter(1) [of ds] that by blast
  show ?thesis
    by (subst parse_members.simps) (auto split: option.splits list.splits simp: g h)
qed

subsection \<open>The scripts with their objects\<close>

lemma alloc_simp [simp]: "alloc v s = (length s, s @ [v])"
  by (simp add: alloc_def)

text \<open>An operation only adds objects: the store after is the store before, extended.\<close>

lemma upload_store_extends:
  "upload_store ctx data s h = (res, s', h') \<Longrightarrow> \<exists>new. s' = s @ new"
  by (auto simp: upload_store_def split: sum.splits prod.splits if_splits)

lemma readInputFile_store_extends:
  "readInputFile_store ctx s h = (res, s', h') \<Longrightarrow> \<exists>new. s' = s @ new"
  by (auto simp: readInputFile_store_def split: sum.splits prod.splits)

lemma uploadDocument_part_001_store_extends:
  assumes "uploadDocument_part_001_store ctx data s h = (res, s', h')"
  shows "\<exists>new. s' = s @ new"
proof -
  obtain r1 s1 h1 where u: "upload_store ctx data s h = (r1, s1, h1)"
    by (cases "upload_store ctx data s h") auto
  from upload_store_extends [OF u] obtain new where "s1 = s @ new" ..
  with assms u show ?thesis
    by (auto simp: uploadDocument_part_001_store_def split: sum.splits)
qed

lemma uploadDocument_part_000_store_extends:
  assumes "uploadDocument_part_000_store ctx data s h = (res, s', h')"
  shows "\<exists>new. s' = s @ new"
proof -
  obtain r1 s1 h1 where u: "upload_store ctx data s h = (r1, s1, h1)"
    by (cases "upload_store ctx data s h") auto
  from upload_store_extends [OF u] obtain new where "s1 = s @ new" ..
  with assms u show ?thesis
    by (auto simp: uploadDocument_part_000_store_def split: sum.splits prod.splits)
qed

lemma deref_extends: "fst r < length s \<Longrightarrow> deref (s @ new) r = deref s r"
  by (simp add: deref_def nth_append)


text \<open>The scripts with their objects compute what the scripts above compute.\<close>

lemma uploadDocument_part_000_store_refines:
  "deref s data = Inr d \<Longrightarrow>
   (case uploadDocument_part_000_store ctx data s h of
      (Inl e, s', h') \<Rightarrow> (Inl e, h')
    | (Inr a, s', h') \<Rightarrow> (Inr (s' ! a), h'))
   = uploadDocument_part_000 ctx d h"
  by (simp add: uploadDocument_part_000_store_def upload_store_def uploadDocument_part_000_def
      and_then_def nth_append split: sum.splits prod.splits)

lemma uploadDocument_part_001_store_refines:
  "deref s data = Inr d \<Longrightarrow>
   (case uploadDocument_part_001_store ctx data s h of (res, s', h') \<Rightarrow> (res, h'))
   = uploadDocument_part_001 ctx d h"
  by (simp add: uploadDocument_part_001_store_def upload_store_def uploadDocument_part_001_def
      and_then_def nth_append split: sum.splits prod.splits)


lemma execute_part_001_store_refines:
  "(case execute_part_001_store ctx s h of (res, s', h') \<Rightarrow> (res, h')) = execute_part_001 ctx h"
proof (cases "readInputFile ctx h")
  case (Pair r h1)
  show ?thesis
  proof (cases r)
    case (Inl e)
    with Pair show ?thesis
      by (auto simp: execute_part_001_store_def execute_part_001_def readInputFile_store_def
          readInputFile_def split: sum.splits prod.splits)
  next
    case (Inr input)
    with Pair have r: "readInputFile_store ctx s h = (Inr (length s), s @ [input], h1)"
      by (auto simp: readInputFile_store_def readInputFile_def split: sum.splits prod.splits)
    have d: "deref (s @ [input]) (length s, [Property ''Clients'', Index0])
               = and_then (js_get input ''Clients'') js_index0"
      by (simp add: deref_def and_then_def split: sum.splits)
    show ?thesis
    proof (cases "and_then (js_get input ''Clients'') js_index0")
      case (Inl e)
      with Pair Inr r d show ?thesis
        by (simp add: execute_part_001_store_def execute_part_001_def)
    next
      case client: (Inr c)
      with d have "deref (s @ [input]) (length s, [Property ''Clients'', Index0]) = Inr c"
        by simp
      from uploadDocument_part_001_store_refines [OF this, of ctx h1] Pair Inr r d client
      show ?thesis
        by (simp add: execute_part_001_store_def execute_part_001_def)
    qed
  qed
qed

lemma execute_part_000_store_refines:
  "(case execute_part_000_store ctx s h of (res, s', h') \<Rightarrow> (res, h')) = execute_part_000 ctx h"
proof (cases "readInputFile ctx h")
  case (Pair r h1)
  show ?thesis
  proof (cases r)
    case (Inl e)
    with Pair show ?thesis
      by (auto simp: execute_part_000_store_def execute_part_000_def readInputFile_store_def
          readInputFile_def split: sum.splits prod.splits)
  next
    case (Inr input)
    with Pair have r: "readInputFile_store ctx s h = (Inr (length s), s @ [input], h1)"
      by (auto simp: readInputFile_store_def readInputFile_def split: sum.splits prod.splits)
    let ?path = "[Property ''Clients'', Index0, Property ''Reservation'']"
    let ?chain = "and_then (and_then (js_get input ''Clients'') js_index0)
                    (\<lambda>client. js_get client ''Reservation'')"
    have d: "deref (s @ [input]) (length s, ?path) = ?chain"
      by (simp add: deref_def and_then_def split: sum.splits)
    show ?thesis
    proof (cases ?chain)
      case (Inl e)
      with Pair Inr r d show ?thesis
        by (simp add: execute_part_000_store_def execute_part_000_def)
    next
      case found: (Inr c)
      with d have "deref (s @ [input]) (length s, ?path) = Inr c"
        by simp
      from uploadDocument_part_000_store_refines [OF this, of ctx h1] Pair Inr r d found
      show ?thesis
        by (auto simp: execute_part_000_store_def execute_part_000_def
            split: sum.splits prod.splits)
    qed
  qed
qed

lemma readInputFile_store_parsed:
  assumes "files ctx (inputDataPath ctx) = Some text"
    and "JSON_parse text = Inr input"
  shows "readInputFile_store ctx s h
           = (Inr (length s), s @ [input], h @ [ReadFile (inputDataPath ctx)])"
  using assms by (simp add: readInputFile_store_def read_def)

lemma execute_part_000_store_extends:
  assumes "files ctx (inputDataPath ctx) = Some text"
    and "JSON_parse text = Inr input"
  shows "\<exists>new. final_store (execute_part_000_store ctx s h) = s @ [input] @ new"
proof -
  let ?data = "(length s, [Property ''Clients'', Index0, Property ''Reservation''])"
  let ?h1 = "h @ [ReadFile (inputDataPath ctx)]"
  note r = readInputFile_store_parsed [OF assms, of s h]
  obtain res s' h' where u: "uploadDocument_part_000_store ctx ?data (s @ [input]) ?h1 = (res, s', h')"
    by (cases "uploadDocument_part_000_store ctx ?data (s @ [input]) ?h1") auto
  from uploadDocument_part_000_store_extends [OF u] obtain new where "s' = (s @ [input]) @ new" ..
  with r u show ?thesis
    by (auto simp: execute_part_000_store_def final_store_def split: sum.splits)
qed

lemma execute_part_001_store_extends:
  assumes "files ctx (inputDataPath ctx) = Some text"
    and "JSON_parse text = Inr input"
  shows "\<exists>new. final_store (execute_part_001_store ctx s h) = s @ [input] @ new"
proof -
  let ?data = "(length s, [Property ''Clients'', Index0])"
  let ?h1 = "h @ [ReadFile (inputDataPath ctx)]"
  note r = readInputFile_store_parsed [OF assms, of s h]
  obtain res s' h' where u: "uploadDocument_part_001_store ctx ?data (s @ [input]) ?h1 = (res, s', h')"
    by (cases "uploadDocument_part_001_store ctx ?data (s @ [input]) ?h1") auto
  from uploadDocument_part_001_store_extends [OF u] obtain new where "s' = (s @ [input]) @ new" ..
  with r u show ?thesis
    by (auto simp: execute_part_001_store_def final_store_def split: sum.splits)
qed

lemma uploadDocument_store_preserves:
  assumes "fst r < length s"
  shows "deref (final_store (uploadDocument_part_000_store ctx data s h)) r = deref s r"
    and "deref (final_store (uploadDocument_part_001_store ctx data s h)) r = deref s r"
proof -
  obtain res s' h' where u: "uploadDocument_part_000_store ctx data s h = (res, s', h')"
    by (cases "uploadDocument_part_000_store ctx data s h") auto
  from uploadDocument_part_000_store_extends [OF u] obtain new where "s' = s @ new" ..
  with u assms show "deref (final_store (uploadDocument_part_000_store ctx data s h)) r = deref s r"
    by (simp add: final_store_def deref_extends)
next
  obtain res s' h' where u: "uploadDocument_part_001_store ctx data s h = (res, s', h')"
    by (cases "uploadDocument_part_001_store ctx data s h") auto
  from uploadDocument_part_001_store_extends [OF u] obtain new where "s' = s @ new" ..
  with u assms show "deref (final_store (uploadDocument_part_001_store ctx data s h)) r = deref s r"
    by (simp add: final_store_def deref_extends)
qed

subsection \<open>Unfolding the scripts\<close>

lemmas part_000_defs =
  execute_part_000_def readInputFile_def read_def uploadDocument_part_000_def
  readDocumentAsBase64_def readAsBase64_def fetch_def

lemmas part_001_defs =
  execute_part_001_def readInputFile_def read_def uploadDocument_part_001_def
  readDocumentAsBase64_def readAsBase64_def fetch_def

lemmas index_defs =
  execute_index_def readInputFile_index_def read_def uploadDocument_index_def
  readDocumentAsBase64_def readAsBase64_def fetch_def Let_def

text \<open>The examples, evaluated once.\<close>

lemma example_input_parses: "JSON_parse example_input = Inr (js_of_InvoicePayload example_payload)"
  by code_simp

lemma example_reply_parses:
  "json example_reply = Inr (js_of_UploadResponse example_upload_response)"
  by code_simp

lemma object_text_is_not_JSON: "JSON_parse ''[object Object]'' = Inl SyntaxError"
  by code_simp

section \<open>The claims\<close>

subsection \<open>C1: a well-formed success reply\<close>

lemma getDocumentId_not_Inr: "getDocumentId response \<noteq> Inr d"
  by (simp add: getDocumentId_def and_then_def split: sum.splits)

lemma execute_part_000_never_returns: "fst (execute_part_000 ctx h) \<noteq> Inr out"
  by (auto simp: execute_part_000_def getDocumentId_not_Inr split: prod.splits sum.splits)

lemma getDocumentId_example:
  "getDocumentId (js_of_UploadResponse example_upload_response)
     = Inl (Error ''No document ID found in upload response'')"
  by code_simp

lemma execute_part_000_example:
  "fst (execute_part_000 (example_context example_input (Inr example_reply)) []) = Inl SyntaxError"
  by code_simp

lemma issued_part_000_example:
  "length (issued [] (execute_part_000 (example_context example_input (Inr example_reply)) [])) = 1"
  by code_simp

lemma ok_reply_completes:
  assumes "\<forall>hist req. endpoint ctx hist req = Inr reply"
    and "ok reply"
    and "json reply = Inr j"
  shows "issued h (execute_part_001 ctx h) \<noteq> [] \<Longrightarrow> fst (execute_part_001 ctx h) = Inr ()"
    and "issued h (execute_index ctx h) \<noteq> [] \<Longrightarrow> fst (execute_index ctx h) = Inr ()"
  using assms
  by (auto simp: part_001_defs index_defs split: option.splits sum.splits prod.splits)

text \<open>
  C1. For every valid ReservationRecord and every reply of HTTP 200 with a well-formed
  body (a documents list with an entry of index 0), \<open>execute\<close> completes without error and
  the identifier-returning script returns the id of that entry.

  The identifier-returning script (\<^verbatim>\<open>part_000\<close>) does not: on the valid input
  \<open>example_input\<close>, with the endpoint answering 200 and a body that has the entry of
  index 0 and id 42, it sends its one request and then throws the \<^verbatim>\<open>SyntaxError\<close> of
  \<^verbatim>\<open>JSON.parse(json)\<close>; and \<open>getDocumentId\<close>, given that very response, throws as well, since
  the \<^verbatim>\<open>return\<close> inside \<^verbatim>\<open>forEach\<close> is lost. Lemma \<open>execute_part_000_never_returns\<close> shows that
  no input at all makes this \<open>execute\<close> return. The two scripts that return nothing do
  complete once their request got a success with a JSON body (lemma \<open>ok_reply_completes\<close>).
\<close>

theorem execute_part_000_fails_on_well_formed_reply:
  "JSON_parse example_input = Inr (js_of_InvoicePayload example_payload)
   \<and> ok example_reply
   \<and> json example_reply = Inr (js_of_UploadResponse example_upload_response)
   \<and> length (issued [] (execute_part_000 (example_context example_input (Inr example_reply)) [])) = 1
   \<and> fst (execute_part_000 (example_context example_input (Inr example_reply)) []) = Inl SyntaxError
   \<and> getDocumentId (js_of_UploadResponse example_upload_response)
       = Inl (Error ''No document ID found in upload response'')"
proof -
  have "ok example_reply"
    by (simp add: ok_def example_reply_def)
  then show ?thesis
    by (simp only: example_input_parses example_reply_parses issued_part_000_example
        execute_part_000_example getDocumentId_example simp_thms)
qed

subsection \<open>C2: a reply that is not a success\<close>

text \<open>
  C2, as stated: for every reply whose status is not a success status, \<open>execute\<close> fails
  with the error that carries the status code, the status text and the parsed body.

  The scripts parse the body before they look at the status, so a reply that is not a
  success and whose body is not JSON (here a 502 with an HTML page) ends in the
  \<^verbatim>\<open>SyntaxError\<close> of \<^verbatim>\<open>response.json()\<close>, not in that error.
\<close>

theorem non_ok_reply_counterexample:
  "\<not> ok bad_gateway_reply
   \<and> issued [] (execute_part_000 (example_context example_input (Inr bad_gateway_reply)) []) \<noteq> []
   \<and> fst (execute_part_000 (example_context example_input (Inr bad_gateway_reply)) [])
       = Inl SyntaxError"
proof -
  have "\<not> ok bad_gateway_reply"
    by (simp add: ok_def bad_gateway_reply_def)
  moreover have "issued [] (execute_part_000 (example_context example_input (Inr bad_gateway_reply)) []) \<noteq> []"
    by code_simp
  moreover have "fst (execute_part_000 (example_context example_input (Inr bad_gateway_reply)) [])
      = Inl SyntaxError"
    by code_simp
  ultimately show ?thesis by blast
qed

text \<open>
  C2, amended: for every reply whose status is not a success status and whose body is
  JSON, each of the three scripts that has sent its request fails with the error whose
  message is \<^verbatim>\<open>Non-OK DAS API response: \<close> followed by the status code, a space, the status
  text, a colon and the JSON text of the parsed body.
\<close>

theorem non_ok_reply:
  assumes "\<forall>hist req. endpoint ctx hist req = Inr reply"
    and "\<not> ok reply"
    and "json reply = Inr j"
  shows "(issued h (execute_part_000 ctx h) \<noteq> [] \<longrightarrow>
            fst (execute_part_000 ctx h) =
              Inl (Error (''Non-OK DAS API response: '' @ number_to_string (Decimal (status reply) 0)
                          @ '' '' @ statusText reply @ '':'' @ JSON_stringify j)))
       \<and> (issued h (execute_part_001 ctx h) \<noteq> [] \<longrightarrow>
            fst (execute_part_001 ctx h) =
              Inl (Error (''Non-OK DAS API response: '' @ number_to_string (Decimal (status reply) 0)
                          @ '' '' @ statusText reply @ '':'' @ JSON_stringify j)))
       \<and> (issued h (execute_index ctx h) \<noteq> [] \<longrightarrow>
            fst (execute_index ctx h) =
              Inl (Error (''Non-OK DAS API response: '' @ number_to_string (Decimal (status reply) 0)
                          @ '' '' @ statusText reply @ '':'' @ JSON_stringify j)))"
proof (intro conjI impI)
  assume "issued h (execute_part_000 ctx h) \<noteq> []"
  with assms show "fst (execute_part_000 ctx h) =
      Inl (Error (''Non-OK DAS API response: '' @ number_to_string (Decimal (status reply) 0)
                  @ '' '' @ statusText reply @ '':'' @ JSON_stringify j))"
    by (auto simp: part_000_defs non_ok_error_def split: option.splits sum.splits prod.splits)
next
  assume "issued h (execute_part_001 ctx h) \<noteq> []"
  with assms show "fst (execute_part_001 ctx h) =
      Inl (Error (''Non-OK DAS API response: '' @ number_to_string (Decimal (status reply) 0)
                  @ '' '' @ statusText reply @ '':'' @ JSON_stringify j))"
    by (auto simp: part_001_defs non_ok_error_def split: option.splits sum.splits prod.splits)
next
  assume "issued h (execute_index ctx h) \<noteq> []"
  with assms show "fst (execute_index ctx h) =
      Inl (Error (''Non-OK DAS API response: '' @ number_to_string (Decimal (status reply) 0)
                  @ '' '' @ statusText reply @ '':'' @ JSON_stringify j))"
    by (auto simp: index_defs non_ok_error_def split: option.splits sum.splits prod.splits)
qed

theorem non_ok_reply_witness:
  \<open>fst (execute_part_000 (example_context example_input (Inr not_found_reply)) [])
     = Inl (Error ''Non-OK DAS API response: 404 Not Found:{"error":"no such application"}'')
   \<and> fst (execute_part_001 (example_context example_client_input (Inr not_found_reply)) [])
     = Inl (Error ''Non-OK DAS API response: 404 Not Found:{"error":"no such application"}'')
   \<and> fst (execute_index (example_context example_record_input (Inr not_found_reply)) [])
     = Inl (Error ''Non-OK DAS API response: 404 Not Found:{"error":"no such application"}'')\<close>
proof -
  have e: "\<forall>hist req. endpoint (example_context input (Inr not_found_reply)) hist req
             = Inr not_found_reply" for input
    by (simp add: example_context_def)
  have n: "\<not> ok not_found_reply"
    by (simp add: ok_def not_found_reply_def)
  have j: "json not_found_reply = Inr (JObj [(''error'', JStr ''no such application'')])"
    by code_simp
  have m: \<open>''Non-OK DAS API response: '' @ number_to_string (Decimal (status not_found_reply) 0)
             @ '' '' @ statusText not_found_reply @ '':''
             @ JSON_stringify (JObj [(''error'', JStr ''no such application'')])
           = ''Non-OK DAS API response: 404 Not Found:{"error":"no such application"}''\<close>
    by code_simp
  have i0: "issued [] (execute_part_000 (example_context example_input (Inr not_found_reply)) []) \<noteq> []"
    by code_simp
  have i1: "issued [] (execute_part_001 (example_context example_client_input (Inr not_found_reply)) []) \<noteq> []"
    by code_simp
  have i2: "issued [] (execute_index (example_context example_record_input (Inr not_found_reply)) []) \<noteq> []"
    by code_simp
  show ?thesis
    using non_ok_reply [OF e [of example_input] n j, where h = "[]"]
      non_ok_reply [OF e [of example_client_input] n j, where h = "[]"]
      non_ok_reply [OF e [of example_record_input] n j, where h = "[]"] i0 i1 i2
    by (simp only: m simp_thms)
qed

subsection \<open>C3: a response without an entry of index 0\<close>

lemma for_each_no_zero:
  "\<forall>d\<in>set ds. \<not> strict_equals_zero (JNum (documentIndex d)) \<Longrightarrow>
   for_each (map js_of_DocumentProps ds)
     (\<lambda>document. and_then (js_get document ''documentIndex'') (\<lambda>documentIndex.
        if strict_equals_zero documentIndex then js_get document ''id'' else Inr JUndefined))
   = Inr ()"
  by (induction ds) (simp_all add: js_of_DocumentProps_def and_then_def)

lemma getDocumentId_no_zero:
  "\<forall>d\<in>set (documents u). \<not> strict_equals_zero (JNum (documentIndex d)) \<Longrightarrow>
   getDocumentId (js_of_UploadResponse u) = Inl (Error ''No document ID found in upload response'')"
  using for_each_no_zero [of "documents u"]
  by (simp add: getDocumentId_def js_of_UploadResponse_def and_then_def js_forEach_def)

lemma object_reply_fails_first:
  assumes "\<forall>hist req. endpoint ctx hist req = Inr reply"
    and "ok reply"
    and "json reply = Inr (JObj kvs)"
    and "issued h (execute_part_000 ctx h) \<noteq> []"
  shows "fst (execute_part_000 ctx h)
           = Inl (if map_of kvs ''toString'' = None then SyntaxError else TypeError)"
  using assms
  by (auto simp: part_000_defs JSON_parse_value_def object_text_is_not_JSON
      split: option.splits sum.splits prod.splits)

lemma no_zero_reply_parses:
  "json no_zero_reply = Inr (js_of_UploadResponse other_upload_response)"
  by code_simp

lemma getDocumentId_no_zero_example:
  "getDocumentId (js_of_UploadResponse other_upload_response)
     = Inl (Error ''No document ID found in upload response'')"
  by code_simp

lemma execute_part_000_no_zero_example:
  "fst (execute_part_000 (example_context example_input (Inr no_zero_reply)) []) = Inl SyntaxError"
  by code_simp

lemma issued_part_000_no_zero_example:
  "length (issued [] (execute_part_000 (example_context example_input (Inr no_zero_reply)) [])) = 1"
  by code_simp

lemma no_zero_example_indices:
  "map (\<lambda>d. strict_equals_zero (JNum (documentIndex d))) (documents other_upload_response)
     = [False]"
  by code_simp

text \<open>
  C3. For every response whose documents list has no entry with \<open>documentIndex\<close> equal to
  0, the identifier-returning \<open>execute\<close> fails with the error
  \<^verbatim>\<open>No document ID found in upload response\<close>.

  It does not: on the valid input \<open>example_input\<close>, with the endpoint answering 200 and a
  body whose documents list has the one entry of index 1 and id 7, the script sends its
  one request and then throws the \<^verbatim>\<open>SyntaxError\<close> of \<^verbatim>\<open>JSON.parse(json)\<close> at the end of
  \<open>uploadDocument\<close>, so \<open>getDocumentId\<close> is never called. Lemma \<open>object_reply_fails_first\<close>
  shows the same for every success reply whose body is a JSON object. The function
  \<open>getDocumentId\<close> itself does raise the error of the claim on every response without an
  entry of index 0 (lemma \<open>getDocumentId_no_zero\<close>), and so on the response of this reply.
\<close>

theorem execute_part_000_without_index_0:
  "JSON_parse example_input = Inr (js_of_InvoicePayload example_payload)
   \<and> ok no_zero_reply
   \<and> json no_zero_reply = Inr (js_of_UploadResponse other_upload_response)
   \<and> map (\<lambda>d. strict_equals_zero (JNum (documentIndex d))) (documents other_upload_response)
       = [False]
   \<and> length (issued [] (execute_part_000 (example_context example_input (Inr no_zero_reply)) [])) = 1
   \<and> fst (execute_part_000 (example_context example_input (Inr no_zero_reply)) []) = Inl SyntaxError
   \<and> getDocumentId (js_of_UploadResponse other_upload_response)
       = Inl (Error ''No document ID found in upload response'')"
proof -
  have "ok no_zero_reply"
    by (simp add: ok_def no_zero_reply_def)
  then show ?thesis
    by (simp only: example_input_parses no_zero_reply_parses no_zero_example_indices
        issued_part_000_no_zero_example execute_part_000_no_zero_example
        getDocumentId_no_zero_example simp_thms)
qed

subsection \<open>C4: malformed input\<close>

text \<open>
  C4. For every input whose content is not JSON, \<open>execute\<close> raises the \<^verbatim>\<open>SyntaxError\<close> of
  \<^verbatim>\<open>JSON.parse\<close> before any request is sent: in each of the three scripts the run ends
  with that error, and all it has added to the history is the read of the input.
\<close>

theorem malformed_input:
  assumes "files ctx (inputDataPath ctx) = Some text"
    and "isl (JSON_parse text)"
  shows "execute_part_000 ctx h = (Inl SyntaxError, h @ [ReadFile (inputDataPath ctx)])
       \<and> execute_part_001 ctx h = (Inl SyntaxError, h @ [ReadFile (inputDataPath ctx)])
       \<and> execute_index ctx h = (Inl SyntaxError, h @ [ReadFile (inputDataPath ctx)])"
proof -
  from assms(2) obtain e where "JSON_parse text = Inl e"
    by (cases "JSON_parse text") auto
  with JSON_parse_error have "JSON_parse text = Inl SyntaxError"
    by blast
  with assms(1) show ?thesis
    by (simp add: execute_part_000_def execute_part_001_def execute_index_def readInputFile_def
        readInputFile_index_def read_def uploadDocument_index_def)
qed

theorem malformed_input_witness:
  \<open>execute_part_000 (example_context ''{"Clients":['' (Inr example_reply)) []
     = (Inl SyntaxError, [ReadFile ''in.json''])
   \<and> execute_part_001 (example_context ''{"Clients":['' (Inr example_reply)) []
     = (Inl SyntaxError, [ReadFile ''in.json''])
   \<and> execute_index (example_context ''{"Clients":['' (Inr example_reply)) []
     = (Inl SyntaxError, [ReadFile ''in.json''])\<close>
proof -
  have f: \<open>files (example_context ''{"Clients":['' (Inr example_reply))
             (inputDataPath (example_context ''{"Clients":['' (Inr example_reply)))
           = Some ''{"Clients":[''\<close>
    by (simp add: example_context_def)
  have p: \<open>isl (JSON_parse ''{"Clients":['')\<close>
    by code_simp
  show ?thesis
    using malformed_input [OF f p, of "[]"] by (simp add: example_context_def)
qed

subsection \<open>C5: the metadata list\<close>

text \<open>
  C5, as stated: for every ReservationRecord the metadata list is the seven entries
  \<open>type\<close>, \<open>hotelName\<close>, \<open>checkIn\<close>, \<open>checkOut\<close>, \<open>guests\<close>, \<open>points\<close>, \<open>reservationNumber\<close>, in
  this order, tagged \<open>Text\<close> four times and \<open>Number\<close> three times, read-only, with
  \<open>reservationNumber\<close> taken from the record's confirmation number.

  \<^verbatim>\<open>src/index.ts\<close> reads \<^verbatim>\<open>reservationNumber\<close>, not \<^verbatim>\<open>confirmationNumber\<close>: on the record of
  the specification's example, whose confirmation number is 1234, the last entry has no
  value.
\<close>

theorem metadata_list_counterexample:
  "and_then (JSON_parse example_record_input) (\<lambda>v. js_get v ''confirmationNumber'')
     = Inr (JNum (Decimal 1234 0))
   \<and> and_then (JSON_parse example_record_input) metadata_index
     = Inr (JArr [metadata_entry ''type'' ''Text'' (JStr ''reward_activity''),
                  metadata_entry ''hotelName'' ''Text'' (JStr ''Grand Hotel''),
                  metadata_entry ''checkIn'' ''Text'' (JStr ''2023-05-01''),
                  metadata_entry ''checkOut'' ''Text'' (JStr ''2023-05-03''),
                  metadata_entry ''guests'' ''Number'' (JNum (Decimal 2 0)),
                  metadata_entry ''points'' ''Number'' (JNum (Decimal 150 0)),
                  metadata_entry ''reservationNumber'' ''Number'' JUndefined])"
proof -
  have "and_then (JSON_parse example_record_input) (\<lambda>v. js_get v ''confirmationNumber'')
      = Inr (JNum (Decimal 1234 0))"
    by code_simp
  moreover have "and_then (JSON_parse example_record_input) metadata_index
      = Inr (JArr [metadata_entry ''type'' ''Text'' (JStr ''reward_activity''),
                   metadata_entry ''hotelName'' ''Text'' (JStr ''Grand Hotel''),
                   metadata_entry ''checkIn'' ''Text'' (JStr ''2023-05-01''),
                   metadata_entry ''checkOut'' ''Text'' (JStr ''2023-05-03''),
                   metadata_entry ''guests'' ''Number'' (JNum (Decimal 2 0)),
                   metadata_entry ''points'' ''Number'' (JNum (Decimal 150 0)),
                   metadata_entry ''reservationNumber'' ''Number'' JUndefined])"
    by code_simp
  ultimately show ?thesis by blast
qed

text \<open>
  C5, amended: the metadata list is the seven entries \<open>type\<close>, \<open>hotelName\<close>, \<open>checkIn\<close>,
  \<open>checkOut\<close>, \<open>guests\<close>, \<open>points\<close>, \<open>reservationNumber\<close>, in this order, tagged \<open>Text\<close> four
  times and \<open>Number\<close> three times, each read-only. For every Reservation, the two scripts
  that take the first client put it into the one document of the body, with
  \<open>hotelName\<close> from the hotel's name and \<open>reservationNumber\<close> from the confirmation
  number; \<^verbatim>\<open>src/index.ts\<close> takes the values from the properties \<^verbatim>\<open>hotelName\<close>,
  \<^verbatim>\<open>checkInDate\<close>, \<^verbatim>\<open>checkOutDate\<close>, \<^verbatim>\<open>guests\<close>, \<^verbatim>\<open>points\<close> and \<^verbatim>\<open>reservationNumber\<close> of its
  input object.
\<close>

theorem metadata_list:
  "document_fields ctx (js_of_Reservation r) =
     Inr [(''clientAccessRights'',
             JArr [JObj [(''clientId'', JStr (guestClientId r)), (''right'', JStr ''Delete'')]]),
          (''fileName'', JStr ''invoice.pdf''),
          (''name'', JStr ''Invoice''),
          (''applicationId'', JStr (applicationId ctx)),
          (''publicAccessRight'', JStr ''None''),
          (''metadata'',
             JArr [metadata_entry ''type'' ''Text'' (JStr ''reward_activity''),
                   metadata_entry ''hotelName'' ''Text'' (JStr (hotel_name (hotel r))),
                   metadata_entry ''checkIn'' ''Text'' (JStr (checkInDate r)),
                   metadata_entry ''checkOut'' ''Text'' (JStr (checkOutDate r)),
                   metadata_entry ''guests'' ''Number'' (JNum (guests r)),
                   metadata_entry ''points'' ''Number'' (JNum (points r)),
                   metadata_entry ''reservationNumber'' ''Number'' (JNum (confirmationNumber r))])]
   \<and> metadata_index (JObj kvs) =
     Inr (JArr [metadata_entry ''type'' ''Text'' (JStr ''reward_activity''),
                metadata_entry ''hotelName'' ''Text'' (get_property kvs ''hotelName''),
                metadata_entry ''checkIn'' ''Text'' (get_property kvs ''checkInDate''),
                metadata_entry ''checkOut'' ''Text'' (get_property kvs ''checkOutDate''),
                metadata_entry ''guests'' ''Number'' (get_property kvs ''guests''),
                metadata_entry ''points'' ''Number'' (get_property kvs ''points''),
                metadata_entry ''reservationNumber'' ''Number'' (get_property kvs ''reservationNumber'')])"
  by (simp add: document_fields_def metadata_def metadata_index_def js_of_Reservation_def
      js_of_Hotel_def and_then_def)

subsection \<open>C6: the content of the document\<close>

lemma part_000_request:
  assumes "document_fields ctx data = Inr props"
    and "files ctx (documentPath ctx) = Some doc"
  shows "issued h (uploadDocument_part_000 ctx data h) =
           [\<lparr>url = dasConnector ctx, http_method = ''POST'', headers = request_headers,
             body = JSON_stringify (request_body props (JStr (base64 doc)))\<rparr>]"
  using assms
  by (simp add: part_000_defs split: option.splits sum.splits prod.splits)

lemma part_001_request:
  assumes "document_fields ctx data = Inr props"
    and "files ctx (documentPath ctx) = Some doc"
  shows "issued h (uploadDocument_part_001 ctx data h) =
           [\<lparr>url = dasConnector ctx, http_method = ''POST'', headers = request_headers,
             body = JSON_stringify (request_body props (JStr (base64 doc)))\<rparr>]"
  using assms
  by (simp add: part_001_defs split: option.splits sum.splits prod.splits)

text \<open>
  C6. For every document, the body sent to the endpoint is a list of one document whose
  \<open>fileContent\<close> is the base64 text of the document's bytes.

  The two scripts that take the first client send it (lemmas \<open>part_000_request\<close> and
  \<open>part_001_request\<close>). \<^verbatim>\<open>src/index.ts\<close> does not await \<open>readDocumentAsBase64\<close>: on the
  record of the specification's example and the ten bytes \<^verbatim>\<open>0123456789\<close>, whose base64
  text is \<^verbatim>\<open>MDEyMzQ1Njc4OQ==\<close>, the body it sends has the empty object for \<open>fileContent\<close>.
\<close>

theorem index_sends_no_file_content:
  \<open>files (example_context example_record_input (Inr example_reply)) ''doc.pdf''
     = Some ''0123456789''
   \<and> base64 ''0123456789'' = ''MDEyMzQ1Njc4OQ==''
   \<and> map body (issued [] (execute_index (example_context example_record_input (Inr example_reply)) []))
     = [''{"documents":[{"clientAccessRights":[{"clientId":"c-9","right":"Delete"}],"fileName":"string","name":"string","applicationId":"app-1","publicAccessRight":"None","metadata":[{"name":"type","type":"Text","value":"reward_activity","isReadOnly":true},{"name":"hotelName","type":"Text","value":"Grand Hotel","isReadOnly":true},{"name":"checkIn","type":"Text","value":"2023-05-01","isReadOnly":true},{"name":"checkOut","type":"Text","value":"2023-05-03","isReadOnly":true},{"name":"guests","type":"Number","value":2,"isReadOnly":true},{"name":"points","type":"Number","value":150,"isReadOnly":true},{"name":"reservationNumber","type":"Number","isReadOnly":true}],"fileContent":{}}]}'']\<close>
proof -
  have \<open>files (example_context example_record_input (Inr example_reply)) ''doc.pdf''
      = Some ''0123456789''\<close>
    by (simp add: example_context_def)
  moreover have \<open>base64 ''0123456789'' = ''MDEyMzQ1Njc4OQ==''\<close>
    by code_simp
  moreover have \<open>map body (issued [] (execute_index (example_context example_record_input (Inr example_reply)) []))
     = [''{"documents":[{"clientAccessRights":[{"clientId":"c-9","right":"Delete"}],"fileName":"string","name":"string","applicationId":"app-1","publicAccessRight":"None","metadata":[{"name":"type","type":"Text","value":"reward_activity","isReadOnly":true},{"name":"hotelName","type":"Text","value":"Grand Hotel","isReadOnly":true},{"name":"checkIn","type":"Text","value":"2023-05-01","isReadOnly":true},{"name":"checkOut","type":"Text","value":"2023-05-03","isReadOnly":true},{"name":"guests","type":"Number","value":2,"isReadOnly":true},{"name":"points","type":"Number","value":150,"isReadOnly":true},{"name":"reservationNumber","type":"Number","isReadOnly":true}],"fileContent":{}}]}'']\<close>
    by code_simp
  ultimately show ?thesis by blast
qed

subsection \<open>C7: the request does not depend on what happened before\<close>

lemma issued_part_000_canonical:
  "issued h (execute_part_000 ctx h) =
   issued [] (execute_part_000 (ctx\<lparr>endpoint := \<lambda>_ _. Inl NetworkError\<rparr>) [])"
  by (simp add: part_000_defs document_fields_def split: option.splits sum.splits prod.splits)

lemma issued_part_001_canonical:
  "issued h (execute_part_001 ctx h) =
   issued [] (execute_part_001 (ctx\<lparr>endpoint := \<lambda>_ _. Inl NetworkError\<rparr>) [])"
  by (simp add: part_001_defs document_fields_def split: option.splits sum.splits prod.splits)

lemma issued_index_canonical:
  "issued h (execute_index ctx h) =
   issued [] (execute_index (ctx\<lparr>endpoint := \<lambda>_ _. Inl NetworkError\<rparr>) [])"
  by (simp add: index_defs document_fields_index_def split: option.splits sum.splits prod.splits)

lemma later_runs_send_the_same:
  "issued (run_times n (execute_part_000 ctx) h)
          (execute_part_000 ctx (run_times n (execute_part_000 ctx) h))
     = issued [] (execute_part_000 ctx [])"
  "issued (run_times n (execute_part_001 ctx) h)
          (execute_part_001 ctx (run_times n (execute_part_001 ctx) h))
     = issued [] (execute_part_001 ctx [])"
  "issued (run_times n (execute_index ctx) h)
          (execute_index ctx (run_times n (execute_index ctx) h))
     = issued [] (execute_index ctx [])"
  using issued_part_000_canonical [of "run_times n (execute_part_000 ctx) h" ctx]
    issued_part_000_canonical [of "[]" ctx]
    issued_part_001_canonical [of "run_times n (execute_part_001 ctx) h" ctx]
    issued_part_001_canonical [of "[]" ctx]
    issued_index_canonical [of "run_times n (execute_index ctx) h" ctx]
    issued_index_canonical [of "[]" ctx]
  by simp_all

text \<open>
  C7. The construction of the payload is deterministic and does not depend on how often
  the operation has run before: with the same parameters and files (the same record and
  document), the requests a run sends, and so the body with its metadata list, are the
  same whatever the history \<open>h\<close> of earlier events is and however the endpoint has behaved
  or will behave. The endpoint may answer differently each time (it sees the history);
  the request does not change. In particular the run after \<open>n\<close> earlier runs sends what
  the first run sends (lemma \<open>later_runs_send_the_same\<close>).
\<close>

theorem request_independent_of_history:
  "issued h (execute_part_000 (ctx\<lparr>endpoint := ep\<rparr>) h)
     = issued h' (execute_part_000 (ctx\<lparr>endpoint := ep'\<rparr>) h')
   \<and> issued h (execute_part_001 (ctx\<lparr>endpoint := ep\<rparr>) h)
     = issued h' (execute_part_001 (ctx\<lparr>endpoint := ep'\<rparr>) h')
   \<and> issued h (execute_index (ctx\<lparr>endpoint := ep\<rparr>) h)
     = issued h' (execute_index (ctx\<lparr>endpoint := ep'\<rparr>) h')"
  using issued_part_000_canonical [of h "ctx\<lparr>endpoint := ep\<rparr>"]
    issued_part_000_canonical [of h' "ctx\<lparr>endpoint := ep'\<rparr>"]
    issued_part_001_canonical [of h "ctx\<lparr>endpoint := ep\<rparr>"]
    issued_part_001_canonical [of h' "ctx\<lparr>endpoint := ep'\<rparr>"]
    issued_index_canonical [of h "ctx\<lparr>endpoint := ep\<rparr>"]
    issued_index_canonical [of h' "ctx\<lparr>endpoint := ep'\<rparr>"]
  by simp

subsection \<open>C8: the record is left as it was\<close>

text \<open>
  C8. For every execution, the record read from the input is never mutated: every
  operation of the pipeline leaves every field of it unchanged.

  In the scripts with their objects, a run of either of the two scripts that take the
  first client, started in any store \<open>s\<close>, puts the parsed input at the address
  \<open>length s\<close> and ends with a store in which every object of \<open>s\<close> is as it was and every
  read through a reference into the parsed input, so every field of the record, gives
  what it gave right after the parse. Lemma \<open>uploadDocument_store_preserves\<close> is the
  same for \<open>uploadDocument\<close> alone, which builds the metadata and the body and uploads:
  it changes no reference that exists when it is called.
\<close>

theorem record_never_mutated:
  assumes "files ctx (inputDataPath ctx) = Some text"
    and "JSON_parse text = Inr input"
  shows "take (length s) (final_store (execute_part_000_store ctx s h)) = s
       \<and> deref (final_store (execute_part_000_store ctx s h)) (length s, p) = select input p
       \<and> take (length s) (final_store (execute_part_001_store ctx s h)) = s
       \<and> deref (final_store (execute_part_001_store ctx s h)) (length s, p) = select input p"
proof -
  from execute_part_000_store_extends [OF assms, of s h]
  obtain new0 where "final_store (execute_part_000_store ctx s h) = s @ [input] @ new0" ..
  moreover from execute_part_001_store_extends [OF assms, of s h]
  obtain new1 where "final_store (execute_part_001_store ctx s h) = s @ [input] @ new1" ..
  ultimately show ?thesis
    by (simp add: deref_def nth_append)
qed

theorem record_never_mutated_witness:
  "deref (final_store (execute_part_000_store (example_context example_input (Inr example_reply)) [] []))
     (0, [Property ''Clients'', Index0, Property ''Reservation'', Property ''confirmationNumber''])
     = Inr (JNum (Decimal 1234 0))
   \<and> deref (final_store (execute_part_001_store
                           (example_context example_client_input (Inr example_reply)) [] []))
     (0, [Property ''Clients'', Index0, Property ''confirmationNumber''])
     = Inr (JNum (Decimal 1234 0))"
proof -
  have f: "files (example_context input reply) (inputDataPath (example_context input reply))
             = Some input" for input reply
    by (simp add: example_context_def)
  note p0 = example_input_parses
  have s0: "select (js_of_InvoicePayload example_payload)
              [Property ''Clients'', Index0, Property ''Reservation'', Property ''confirmationNumber'']
            = Inr (JNum (Decimal 1234 0))"
    by code_simp
  have "\<not> isl (JSON_parse example_client_input)"
    by code_simp
  then obtain v where p1: "JSON_parse example_client_input = Inr v"
    by (cases "JSON_parse example_client_input") auto
  have "and_then (JSON_parse example_client_input)
          (\<lambda>v. select v [Property ''Clients'', Index0, Property ''confirmationNumber''])
        = Inr (JNum (Decimal 1234 0))"
    by code_simp
  with p1 have s1: "select v [Property ''Clients'', Index0, Property ''confirmationNumber'']
                      = Inr (JNum (Decimal 1234 0))"
    by (simp add: and_then_def)
  show ?thesis
    using record_never_mutated [OF f [of example_input "Inr example_reply"] p0,
        where s = "[]" and h = "[]"
          and p = "[Property ''Clients'', Index0, Property ''Reservation'',
                    Property ''confirmationNumber'']"]
      record_never_mutated [OF f [of example_client_input "Inr example_reply"] p1,
        where s = "[]" and h = "[]"
          and p = "[Property ''Clients'', Index0, Property ''confirmationNumber'']"]
      s0 s1
    by simp
qed

subsection \<open>C9: the second parse\<close>

text \<open>
  C9. In the identifier-returning script, after a success, \<open>uploadDocument\<close> applies
  \<^verbatim>\<open>JSON.parse\<close> to the value that parsing the body has produced: its result is the result
  of parsing the string that value coerces to, so it returns only if that string is
  JSON. For a body that is a JSON object the string is \<^verbatim>\<open>[object Object]\<close> and the call
  throws a \<^verbatim>\<open>SyntaxError\<close> (a \<^verbatim>\<open>TypeError\<close>, if the object has a property \<^verbatim>\<open>toString\<close>).
\<close>

theorem second_parse:
  assumes "\<forall>hist req. endpoint ctx hist req = Inr reply"
    and "ok reply"
    and "json reply = Inr j"
    and "issued h (uploadDocument_part_000 ctx data h) \<noteq> []"
  shows "fst (uploadDocument_part_000 ctx data h) = and_then (ToString j) JSON_parse
       \<and> (\<forall>kvs. j = JObj kvs \<longrightarrow>
            fst (uploadDocument_part_000 ctx data h) =
              Inl (if map_of kvs ''toString'' = None then SyntaxError else TypeError))"
  using assms
  by (auto simp: part_000_defs JSON_parse_value_def and_then_def object_text_is_not_JSON
      split: option.splits sum.splits prod.splits)

theorem second_parse_witness:
  "fst (uploadDocument_part_000 (example_context example_input (Inr example_reply))
          (js_of_Reservation example_reservation) [])
     = Inl SyntaxError
   \<and> fst (uploadDocument_part_000 (example_context example_input (Inr string_reply))
          (js_of_Reservation example_reservation) [])
     = Inr (js_of_UploadResponse other_upload_response)"
proof -
  have e: "\<forall>hist req. endpoint (example_context example_input (Inr reply)) hist req = Inr reply"
    for reply
    by (simp add: example_context_def)
  have k: "ok example_reply" "ok string_reply"
    by (simp_all add: ok_def example_reply_def string_reply_def)
  have j: \<open>json string_reply
             = Inr (JStr ''{"eventId":"e1","documents":[{"documentIndex":1,"id":7}]}'')\<close>
    by code_simp
  have p: \<open>and_then (ToString (JStr ''{"eventId":"e1","documents":[{"documentIndex":1,"id":7}]}''))
             JSON_parse
           = Inr (js_of_UploadResponse other_upload_response)\<close>
    by code_simp
  have i: "issued [] (uploadDocument_part_000 (example_context example_input (Inr example_reply))
             (js_of_Reservation example_reservation) []) \<noteq> []"
    "issued [] (uploadDocument_part_000 (example_context example_input (Inr string_reply))
             (js_of_Reservation example_reservation) []) \<noteq> []"
    by code_simp+
  have "\<forall>kvs. js_of_UploadResponse example_upload_response = JObj kvs \<longrightarrow>
          fst (uploadDocument_part_000 (example_context example_input (Inr example_reply))
                 (js_of_Reservation example_reservation) [])
            = Inl (if map_of kvs ''toString'' = None then SyntaxError else TypeError)"
    using second_parse [OF e k(1) example_reply_parses i(1)] by (rule conjunct2)
  then have a: "fst (uploadDocument_part_000 (example_context example_input (Inr example_reply))
                       (js_of_Reservation example_reservation) [])
                  = Inl SyntaxError"
    by (simp add: js_of_UploadResponse_def)
  have \<open>fst (uploadDocument_part_000 (example_context example_input (Inr string_reply))
               (js_of_Reservation example_reservation) [])
          = and_then (ToString (JStr ''{"eventId":"e1","documents":[{"documentIndex":1,"id":7}]}''))
              JSON_parse\<close>
    using second_parse [OF e k(2) j i(2)] by (rule conjunct1)
  with p have b: "fst (uploadDocument_part_000 (example_context example_input (Inr string_reply))
                         (js_of_Reservation example_reservation) [])
                    = Inr (js_of_UploadResponse other_upload_response)"
    by (simp only:)
  from a b show ?thesis by (rule conjI)
qed

subsection \<open>C10: an empty list of clients\<close>

text \<open>
  C10. For every input whose parsed JSON has an empty \<open>Clients\<close> list, \<open>execute\<close> in the
  two scripts that take the first client throws a \<^verbatim>\<open>TypeError\<close> (a property read of
  \<^verbatim>\<open>undefined\<close>) before any request is sent: nothing checks that the list has an element,
  and all the run has added to the history is the read of the input.
\<close>

theorem empty_Clients:
  assumes "files ctx (inputDataPath ctx) = Some text"
    and "JSON_parse text = Inr input"
    and "js_get input ''Clients'' = Inr (JArr [])"
  shows "execute_part_000 ctx h = (Inl TypeError, h @ [ReadFile (inputDataPath ctx)])
       \<and> execute_part_001 ctx h = (Inl TypeError, h @ [ReadFile (inputDataPath ctx)])"
  using assms
  by (simp add: execute_part_000_def execute_part_001_def readInputFile_def read_def
      and_then_def js_index0_def js_get_def uploadDocument_part_001_def document_fields_def)

theorem empty_Clients_witness:
  \<open>execute_part_000 (example_context ''{"Clients":[]}'' (Inr example_reply)) []
     = (Inl TypeError, [ReadFile ''in.json''])
   \<and> execute_part_001 (example_context ''{"Clients":[]}'' (Inr example_reply)) []
     = (Inl TypeError, [ReadFile ''in.json''])\<close>
proof -
  have f: \<open>files (example_context ''{"Clients":[]}'' (Inr example_reply))
             (inputDataPath (example_context ''{"Clients":[]}'' (Inr example_reply)))
           = Some ''{"Clients":[]}''\<close>
    by (simp add: example_context_def)
  have p: \<open>JSON_parse ''{"Clients":[]}'' = Inr (JObj [(''Clients'', JArr [])])\<close>
    by code_simp
  have c: "js_get (JObj [(''Clients'', JArr [])]) ''Clients'' = Inr (JArr [])"
    by simp
  show ?thesis
    using empty_Clients [OF f p c, of "[]"] by (simp add: example_context_def)
qed


end
